theory Spec2Isabelle
  imports Main "HOL-Library.Sublist"
begin

text \<open>
  A shallow embedding of the core of pf-tui: the compiler of the rule document into pf
  rules (\<^verbatim>\<open>GeneratePfConf\<close>), the parser of pf's rule listing
  (\<^verbatim>\<open>ParseLiveRules\<close>), and the rule store of the \<^verbatim>\<open>FirewallManager\<close> with its
  JSON file. Library functions are modelled on the bytes of Go strings; the file system
  and \<^verbatim>\<open>encoding/json\<close> are explicit parameters of the store.
\<close>

section \<open>Rule model\<close>

text \<open>
  The three structs of the rule store. Go strings are byte sequences, so a field of type
  \<^verbatim>\<open>string\<close> is a \<^typ>\<open>string\<close> (a list of 8-bit characters). Both rule structs have
  fields called \<^verbatim>\<open>Interface\<close>, \<^verbatim>\<open>Protocol\<close> and \<^verbatim>\<open>Description\<close>; the ones of
  \<^verbatim>\<open>PortForwardingRule\<close> carry the prefix \<open>rdr_\<close> here.
\<close>

record FirewallRule =
  Action :: string
  Direction :: string
  Quick :: bool
  Interface :: string
  Protocol :: string
  Source :: string
  Destination :: string
  Port :: string
  KeepState :: bool
  Description :: string

record PortForwardingRule =
  rdr_Interface :: string
  rdr_Protocol :: string
  ExternalIP :: string
  ExternalPort :: string
  InternalIP :: string
  InternalPort :: string
  rdr_Description :: string

record Config =
  FirewallRules :: "FirewallRule list"
  PortForwardingRules :: "PortForwardingRule list"

section \<open>The functions of package \<^verbatim>\<open>strings\<close> that the program calls\<close>

text \<open>
  \<^verbatim>\<open>strings.Split(s, sep)\<close> for a separator of one byte (the program splits on
  \<^verbatim>\<open>","\<close> and on a newline): the pieces between the separators, in order; a string
  without separator, also the empty one, gives one piece.
\<close>

fun strings_Split :: "string \<Rightarrow> char \<Rightarrow> string list" where
  "strings_Split [] sep = [[]]"
| "strings_Split (c # cs) sep =
     (if c = sep then [] # strings_Split cs sep
      else (case strings_Split cs sep of
              [] \<Rightarrow> [[c]]
            | t # ts \<Rightarrow> (c # t) # ts))"

text \<open>\<^verbatim>\<open>strings.Join(elems, sep)\<close>.\<close>

fun strings_Join :: "string list \<Rightarrow> string \<Rightarrow> string" where
  "strings_Join [] sep = []"
| "strings_Join [x] sep = x"
| "strings_Join (x # y # ys) sep = x @ sep @ strings_Join (y # ys) sep"

text \<open>\<^verbatim>\<open>strings.Contains(s, substr)\<close> for a substring of one byte.\<close>

definition strings_Contains :: "string \<Rightarrow> char \<Rightarrow> bool" where
  "strings_Contains s c = (c \<in> set s)"

text \<open>\<^verbatim>\<open>strings.ReplaceAll(s, old, new)\<close> for \<^verbatim>\<open>old\<close> and \<^verbatim>\<open>new\<close> of one byte each.\<close>

definition strings_ReplaceAll :: "string \<Rightarrow> char \<Rightarrow> char \<Rightarrow> string" where
  "strings_ReplaceAll s old new = map (\<lambda>c. if c = old then new else c) s"

text \<open>
  White space is what \<^verbatim>\<open>unicode.IsSpace\<close> accepts. On the bytes of a string these are
  the UTF-8 encodings of the code points U+0009 to U+000D, U+0020, U+0085, U+00A0, U+1680,
  U+2000 to U+200A, U+2028, U+2029, U+202F, U+205F and U+3000. Each encoding begins with a
  byte that is not a continuation byte, so Go's decoder reads it as that code point
  wherever it occurs, from the left as from the right.
\<close>

definition space_encodings :: "string list" where
  "space_encodings =
     [[CHR 0x09], [CHR 0x0A], [CHR 0x0B], [CHR 0x0C], [CHR 0x0D], [CHR 0x20],
      [CHR 0xC2, CHR 0x85], [CHR 0xC2, CHR 0xA0],
      [CHR 0xE1, CHR 0x9A, CHR 0x80],
      [CHR 0xE2, CHR 0x80, CHR 0x80], [CHR 0xE2, CHR 0x80, CHR 0x81],
      [CHR 0xE2, CHR 0x80, CHR 0x82], [CHR 0xE2, CHR 0x80, CHR 0x83],
      [CHR 0xE2, CHR 0x80, CHR 0x84], [CHR 0xE2, CHR 0x80, CHR 0x85],
      [CHR 0xE2, CHR 0x80, CHR 0x86], [CHR 0xE2, CHR 0x80, CHR 0x87],
      [CHR 0xE2, CHR 0x80, CHR 0x88], [CHR 0xE2, CHR 0x80, CHR 0x89],
      [CHR 0xE2, CHR 0x80, CHR 0x8A],
      [CHR 0xE2, CHR 0x80, CHR 0xA8], [CHR 0xE2, CHR 0x80, CHR 0xA9],
      [CHR 0xE2, CHR 0x80, CHR 0xAF],
      [CHR 0xE2, CHR 0x81, CHR 0x9F],
      [CHR 0xE3, CHR 0x80, CHR 0x80]]"

text \<open>The rest of the string after a leading white space character, if there is one.\<close>

definition space_prefix :: "string \<Rightarrow> string option" where
  "space_prefix s =
     map_option (\<lambda>e. drop (length e) s) (find (\<lambda>e. prefix e s) space_encodings)"

text \<open>The string before a trailing white space character, if there is one.\<close>

definition space_suffix :: "string \<Rightarrow> string option" where
  "space_suffix s =
     map_option (\<lambda>e. take (length s - length e) s) (find (\<lambda>e. suffix e s) space_encodings)"

lemma space_prefix_shorter: "space_prefix s = Some r \<Longrightarrow> length r < length s"
proof -
  assume a: "space_prefix s = Some r"
  then obtain e where e: "find (\<lambda>e. prefix e s) space_encodings = Some e" and r: "r = drop (length e) s"
    by (auto simp: space_prefix_def)
  from e have "e \<in> set space_encodings" and p: "prefix e s"
    by (auto simp: find_Some_iff)
  then have "e \<noteq> []"
    by (auto simp: space_encodings_def)
  with p have "s \<noteq> []" "0 < length e"
    by auto
  with r show ?thesis
    by simp
qed

lemma space_suffix_shorter: "space_suffix s = Some r \<Longrightarrow> length r < length s"
proof -
  assume a: "space_suffix s = Some r"
  then obtain e where e: "find (\<lambda>e. suffix e s) space_encodings = Some e"
    and r: "r = take (length s - length e) s"
    by (auto simp: space_suffix_def)
  from e have "e \<in> set space_encodings" and p: "suffix e s"
    by (auto simp: find_Some_iff)
  then have "e \<noteq> []"
    by (auto simp: space_encodings_def)
  with p have "s \<noteq> []" "0 < length e"
    by auto
  with r show ?thesis
    by simp
qed

text \<open>
  \<^verbatim>\<open>strings.TrimSpace(s)\<close>: \<^verbatim>\<open>s\<close> without its leading and trailing white space.
\<close>

function trim_left :: "string \<Rightarrow> string" where
  "trim_left s = (case space_prefix s of None \<Rightarrow> s | Some r \<Rightarrow> trim_left r)"
  by pat_completeness auto
termination
  by (relation "measure length") (auto simp: space_prefix_shorter)

function trim_right :: "string \<Rightarrow> string" where
  "trim_right s = (case space_suffix s of None \<Rightarrow> s | Some r \<Rightarrow> trim_right r)"
  by pat_completeness auto
termination
  by (relation "measure length") (auto simp: space_suffix_shorter)

definition strings_TrimSpace :: "string \<Rightarrow> string" where
  "strings_TrimSpace s = trim_right (trim_left s)"

text \<open>
  \<^verbatim>\<open>strings.Fields(s)\<close>: the maximal runs of bytes between white space, in order; no
  field is empty. \<open>cur\<close> is the field being read.
\<close>

function Fields_from :: "string \<Rightarrow> string \<Rightarrow> string list" where
  "Fields_from cur s =
     (if s = [] then (if cur = [] then [] else [cur])
      else (case space_prefix s of
              Some r \<Rightarrow> (if cur = [] then [] else [cur]) @ Fields_from [] r
            | None \<Rightarrow> Fields_from (cur @ [hd s]) (tl s)))"
  by pat_completeness auto
termination
  by (relation "measure (\<lambda>(cur, s). length s)") (auto simp: space_prefix_shorter)

definition strings_Fields :: "string \<Rightarrow> string list" where
  "strings_Fields s = Fields_from [] s"

declare trim_left.simps [simp del] trim_right.simps [simp del] Fields_from.simps [simp del]

section \<open>The compiler: \<^verbatim>\<open>GeneratePfConf\<close>\<close>

text \<open>
  The redirect statement of one port forwarding rule (\<^verbatim>\<open>rdrStr\<close>); \<^verbatim>\<open>fmt.Sprintf\<close>
  with \<^verbatim>\<open>%s\<close> verbs is concatenation.
\<close>

definition rdrStr :: "PortForwardingRule \<Rightarrow> string" where
  "rdrStr rule =
     (if rdr_Interface rule = ''any'' then
        ''rdr proto '' @ rdr_Protocol rule @ '' from any to '' @ ExternalIP rule
          @ '' port '' @ ExternalPort rule @ '' -> '' @ InternalIP rule
          @ '' port '' @ InternalPort rule
      else
        (let toPart = (if ExternalIP rule = ''any''
                       then ''('' @ rdr_Interface rule @ '')''
                       else ExternalIP rule)
         in ''rdr on '' @ rdr_Interface rule @ '' proto '' @ rdr_Protocol rule
              @ '' from any to '' @ toPart
              @ '' port '' @ ExternalPort rule @ '' -> '' @ InternalIP rule
              @ '' port '' @ InternalPort rule))"

text \<open>What the first loop writes for one port forwarding rule.\<close>

definition rdr_text :: "PortForwardingRule \<Rightarrow> string" where
  "rdr_text rule =
     (if rdr_Description rule \<noteq> [] then ''# '' @ rdr_Description rule @ ''\<newline>'' else [])
     @ rdrStr rule @ ''\<newline>''"

text \<open>The protocol tokens of a filter rule, before they are trimmed.\<close>

definition protocols :: "FirewallRule \<Rightarrow> string list" where
  "protocols rule =
     (if Protocol rule = ''any'' \<and> Port rule \<noteq> ''any'' then [''tcp'', ''udp'']
      else strings_Split (Protocol rule) (CHR '',''))"

text \<open>The port string of the port clause (\<^verbatim>\<open>portStr\<close>).\<close>

definition portStr :: "string \<Rightarrow> string" where
  "portStr port =
     (if strings_Contains port (CHR '','') \<or> strings_Contains port (CHR ''-'')
         \<or> strings_Contains port (CHR '':'')
      then ''{'' @ strings_ReplaceAll port (CHR ''-'') (CHR '':'') @ ''}''
      else port)"

text \<open>
  The tokens of one rule line (\<^verbatim>\<open>parts\<close>), for a protocol token that is already
  trimmed, block by block: action, direction, \<^verbatim>\<open>quick\<close> and interface; the protocol
  clause; the address clause; the port clause; the state clause.
\<close>

definition head_parts :: "FirewallRule \<Rightarrow> string list" where
  "head_parts rule =
     [Action rule, Direction rule]
     @ (if Quick rule then [''quick''] else [])
     @ (if Interface rule \<noteq> ''any'' then [''on'', Interface rule] else [])"

definition proto_clause :: "string \<Rightarrow> string list" where
  "proto_clause proto = (if proto \<noteq> ''any'' then [''proto'', proto] else [])"

definition address_clause :: "FirewallRule \<Rightarrow> string list" where
  "address_clause rule =
     (if Source rule \<noteq> ''any'' \<or> Destination rule \<noteq> ''any''
      then [''from'', Source rule, ''to'', Destination rule]
      else if Source rule = ''any'' \<and> Destination rule = ''any'' \<and> Port rule \<noteq> ''any''
      then [''from'', ''any'', ''to'', ''any'']
      else [])"

definition port_clause :: "FirewallRule \<Rightarrow> string \<Rightarrow> string list" where
  "port_clause rule proto =
     (if Port rule \<noteq> ''any'' \<and> (proto = ''tcp'' \<or> proto = ''udp'')
      then [''port'', portStr (Port rule)]
      else [])"

definition state_clause :: "FirewallRule \<Rightarrow> string list" where
  "state_clause rule = (if KeepState rule then [''keep state''] else [])"

definition parts :: "FirewallRule \<Rightarrow> string \<Rightarrow> string list" where
  "parts rule proto =
     head_parts rule
     @ (if proto = ''any'' \<and> Source rule = ''any'' \<and> Destination rule = ''any''
           \<and> Port rule = ''any''
        then [''all'']
        else proto_clause proto @ address_clause rule @ port_clause rule proto)
     @ state_clause rule"

text \<open>The line written for one protocol token: the body of the inner loop.\<close>

definition rule_line :: "FirewallRule \<Rightarrow> string \<Rightarrow> string" where
  "rule_line rule proto =
     strings_Join (parts rule (strings_TrimSpace proto)) '' '' @ ''\<newline>''"

text \<open>The rule lines of one filter rule, one for each protocol token.\<close>

definition rule_lines :: "FirewallRule \<Rightarrow> string list" where
  "rule_lines rule = map (rule_line rule) (protocols rule)"

text \<open>What the second loop writes for one filter rule: the comment, then the rule lines.\<close>

definition rule_text :: "FirewallRule \<Rightarrow> string" where
  "rule_text rule =
     (if Description rule \<noteq> [] then ''# '' @ Description rule @ ''\<newline>'' else [])
     @ concat (rule_lines rule)"

definition GeneratePfConf :: "Config \<Rightarrow> string" where
  "GeneratePfConf cfg =
     concat (map rdr_text (PortForwardingRules cfg))
     @ concat (map rule_text (FirewallRules cfg))"

text \<open>
  Example rules: the filter rule of the specification's worked example, a rule with a list
  of protocols, a rule that matches everything, and a rule with a port range.
\<close>

definition web_rule :: FirewallRule where
  "web_rule =
     \<lparr>Action = ''pass'', Direction = ''in'', Quick = False, Interface = ''any'',
      Protocol = ''any'', Source = ''any'', Destination = ''any'', Port = ''22,80'',
      KeepState = True, Description = ''web''\<rparr>"

definition lan_rule :: FirewallRule where
  "lan_rule =
     \<lparr>Action = ''block'', Direction = ''out'', Quick = False, Interface = ''any'',
      Protocol = ''tcp, icmp'', Source = ''10.0.0.0/8'', Destination = ''any'', Port = ''any'',
      KeepState = False, Description = []\<rparr>"

definition all_rule :: FirewallRule where
  "all_rule =
     \<lparr>Action = ''pass'', Direction = ''out'', Quick = False, Interface = ''any'',
      Protocol = ''any'', Source = ''any'', Destination = ''any'', Port = ''any'',
      KeepState = True, Description = []\<rparr>"

definition range_rule :: FirewallRule where
  "range_rule =
     \<lparr>Action = ''pass'', Direction = ''in'', Quick = True, Interface = ''en0'',
      Protocol = ''tcp'', Source = ''any'', Destination = ''any'', Port = ''8000-8080'',
      KeepState = False, Description = []\<rparr>"

section \<open>The live rule parser: \<^verbatim>\<open>ParseLiveRules\<close>\<close>

text \<open>
  The errors of the program. \<open>IndexOutOfRange\<close> is the run-time panic of an index
  expression outside its slice; \<open>NotExist\<close> is the error that \<^verbatim>\<open>os.IsNotExist\<close>
  recognises; \<open>IOFailure\<close> is any other failure of a file operation; \<open>JSONError\<close> is an
  error of package \<^verbatim>\<open>encoding/json\<close>; \<open>Wrapped\<close> is \<^verbatim>\<open>fmt.Errorf\<close> with a
  \<^verbatim>\<open>%w\<close> verb.
\<close>

datatype ioop = OpStat | OpRename | OpReadFile | OpMkdirAll | OpWriteFile

datatype error =
    IndexOutOfRange
  | HomeDirError
  | NotExist string
  | IOFailure ioop string
  | JSONError string
  | InvalidRuleIndex
  | Wrapped string error

text \<open>\<^verbatim>\<open>FirewallRule{}\<close>, the zero value.\<close>

definition zero_rule :: FirewallRule where
  "zero_rule =
     \<lparr>Action = [], Direction = [], Quick = False, Interface = [], Protocol = [],
      Source = [], Destination = [], Port = [], KeepState = False, Description = []\<rparr>"

text \<open>
  The inner loop \<^verbatim>\<open>for i := 2; i < len(parts); i++\<close>, from index \<open>i\<close> on. A keyword
  that takes a value increments \<open>i\<close> and reads \<^verbatim>\<open>parts[i]\<close>, which panics when the
  keyword is the last token; \<^verbatim>\<open>keep\<close> increments \<open>i\<close> and reads nothing.
\<close>

function scan :: "string list \<Rightarrow> nat \<Rightarrow> FirewallRule \<Rightarrow> error + FirewallRule" where
  "scan ps i rule =
     (if i < length ps then
        (if ps ! i = ''quick'' then scan ps (i + 1) (rule\<lparr>Quick := True\<rparr>)
         else if ps ! i = ''on'' then
           (if i + 1 < length ps then scan ps (i + 2) (rule\<lparr>Interface := ps ! (i + 1)\<rparr>)
            else Inl IndexOutOfRange)
         else if ps ! i = ''proto'' then
           (if i + 1 < length ps then scan ps (i + 2) (rule\<lparr>Protocol := ps ! (i + 1)\<rparr>)
            else Inl IndexOutOfRange)
         else if ps ! i = ''from'' then
           (if i + 1 < length ps then scan ps (i + 2) (rule\<lparr>Source := ps ! (i + 1)\<rparr>)
            else Inl IndexOutOfRange)
         else if ps ! i = ''to'' then
           (if i + 1 < length ps then scan ps (i + 2) (rule\<lparr>Destination := ps ! (i + 1)\<rparr>)
            else Inl IndexOutOfRange)
         else if ps ! i = ''port'' then
           (if i + 1 < length ps then scan ps (i + 2) (rule\<lparr>Port := ps ! (i + 1)\<rparr>)
            else Inl IndexOutOfRange)
         else if ps ! i = ''keep'' then scan ps (i + 2) (rule\<lparr>KeepState := True\<rparr>)
         else scan ps (i + 1) rule)
      else Inr rule)"
  by pat_completeness auto
termination
  by (relation "measure (\<lambda>(ps, i, rule). length ps - i)") auto

declare scan.simps [simp del]

text \<open>
  The outer loop over the lines; \<open>rules\<close> is the slice built so far. The error result
  of \<^verbatim>\<open>ParseLiveRules\<close> is always \<^verbatim>\<open>nil\<close>, so \<open>Inr\<close> is its return and \<open>Inl\<close> is a
  panic.
\<close>

fun parse_lines :: "string list \<Rightarrow> FirewallRule list \<Rightarrow> error + FirewallRule list" where
  "parse_lines [] rules = Inr rules"
| "parse_lines (line # lines) rules =
     (if strings_TrimSpace line = [] then parse_lines lines rules
      else
        (let ps = strings_Fields line
         in if length ps < 4 then parse_lines lines rules
            else
              (case scan ps 2 (zero_rule\<lparr>Action := ps ! 0, Direction := ps ! 1\<rparr>) of
                 Inl e \<Rightarrow> Inl e
               | Inr rule \<Rightarrow> parse_lines lines (rules @ [rule]))))"

definition ParseLiveRules :: "string \<Rightarrow> error + FirewallRule list" where
  "ParseLiveRules output = parse_lines (strings_Split output (CHR ''\<newline>'')) []"

section \<open>The rule store\<close>

text \<open>
  What the store sees of the operating system, together with the document of the
  \<^verbatim>\<open>FirewallManager\<close>: \<open>home\<close> is the result of \<^verbatim>\<open>os.UserHomeDir\<close> (\<open>None\<close> when
  it fails), \<open>files\<close> holds the bytes of each regular file by path, \<open>fails\<close> tells
  which file operations fail on which path for a reason other than a missing file
  (permissions, a full disk), and \<open>fm_Config\<close> is \<^verbatim>\<open>*fm.Config\<close>. A file operation
  that fails leaves the files as they were. A path names a file by its text: links and
  unnormalised paths are not modelled, and neither are directories, which
  \<^verbatim>\<open>os.MkdirAll\<close> creates or fails to create. Log output is left out.
\<close>

record state =
  home :: "string option"
  files :: "string \<rightharpoonup> string"
  fails :: "ioop \<Rightarrow> string \<Rightarrow> bool"
  fm_Config :: Config

text \<open>
  The two functions of \<^verbatim>\<open>encoding/json\<close> that the store calls, as parameters of the
  model: \<^verbatim>\<open>json.MarshalIndent(fm.Config, "", "  ")\<close> gives bytes or an error;
  \<^verbatim>\<open>json.Unmarshal(data, fm.Config)\<close> writes through the pointer it is given, so it
  takes the document that is in memory and returns the document it leaves there, with
  its error.
\<close>

record json =
  MarshalIndent :: "Config \<Rightarrow> error + string"
  Unmarshal :: "string \<Rightarrow> Config \<Rightarrow> error option \<times> Config"

definition os_Stat :: "state \<Rightarrow> string \<Rightarrow> error option" where
  "os_Stat st p =
     (if fails st OpStat p then Some (IOFailure OpStat p)
      else if files st p = None then Some (NotExist p)
      else None)"

definition os_IsNotExist :: "error \<Rightarrow> bool" where
  "os_IsNotExist err = (case err of NotExist p \<Rightarrow> True | _ \<Rightarrow> False)"

definition os_ReadFile :: "state \<Rightarrow> string \<Rightarrow> error + string" where
  "os_ReadFile st p =
     (if fails st OpReadFile p then Inl (IOFailure OpReadFile p)
      else (case files st p of None \<Rightarrow> Inl (NotExist p) | Some data \<Rightarrow> Inr data))"

definition os_Rename :: "string \<Rightarrow> string \<Rightarrow> state \<Rightarrow> error option \<times> state" where
  "os_Rename old new st =
     (if fails st OpRename old then (Some (IOFailure OpRename old), st)
      else (case files st old of
              None \<Rightarrow> (Some (NotExist old), st)
            | Some data \<Rightarrow> (None, st\<lparr>files := ((files st)(old := None))(new \<mapsto> data)\<rparr>)))"

definition os_MkdirAll :: "state \<Rightarrow> string \<Rightarrow> error option" where
  "os_MkdirAll st p = (if fails st OpMkdirAll p then Some (IOFailure OpMkdirAll p) else None)"

definition os_WriteFile :: "string \<Rightarrow> string \<Rightarrow> state \<Rightarrow> error option \<times> state" where
  "os_WriteFile p data st =
     (if fails st OpWriteFile p then (Some (IOFailure OpWriteFile p), st)
      else (None, st\<lparr>files := (files st)(p \<mapsto> data)\<rparr>))"

text \<open>
  \<^verbatim>\<open>filepath.Join\<close> and \<^verbatim>\<open>filepath.Dir\<close> on clean paths: joining puts a slash between
  the elements, and the directory of a path is what is before its last slash.
\<close>

definition filepath_Join :: "string list \<Rightarrow> string" where
  "filepath_Join elems = strings_Join elems ''/''"

definition filepath_Dir :: "string \<Rightarrow> string" where
  "filepath_Dir p =
     (let d = rev (dropWhile (\<lambda>c. c = CHR ''/'') (dropWhile (\<lambda>c. c \<noteq> CHR ''/'') (rev p)))
      in if d \<noteq> [] then d
         else if CHR ''/'' \<in> set p then ''/''
         else ''.'')"

definition getDefaultConfigPath :: "state \<Rightarrow> error + string" where
  "getDefaultConfigPath st =
     (case home st of
        None \<Rightarrow> Inl HomeDirError
      | Some h \<Rightarrow> Inr (filepath_Join [h, ''.config'', ''pf-tui'', ''rules.json'']))"

definition LoadConfig :: "json \<Rightarrow> state \<Rightarrow> error option \<times> state" where
  "LoadConfig J st =
     (case getDefaultConfigPath st of
        Inl err \<Rightarrow> (Some err, st)
      | Inr path \<Rightarrow>
          (case os_ReadFile st path of
             Inl err \<Rightarrow>
               (if os_IsNotExist err
                then (None, st\<lparr>fm_Config := \<lparr>FirewallRules = [], PortForwardingRules = []\<rparr>\<rparr>)
                else (Some err, st))
           | Inr data \<Rightarrow>
               (case Unmarshal J data (fm_Config st) of
                  (Some err, c) \<Rightarrow> (Some err, st\<lparr>fm_Config := c\<rparr>)
                | (None, c) \<Rightarrow> (None, st\<lparr>fm_Config := c\<rparr>))))"

definition SaveConfig :: "json \<Rightarrow> state \<Rightarrow> error option \<times> state" where
  "SaveConfig J st =
     (case getDefaultConfigPath st of
        Inl err \<Rightarrow> (Some err, st)
      | Inr path \<Rightarrow>
          (case os_MkdirAll st (filepath_Dir path) of
             Some err \<Rightarrow> (Some err, st)
           | None \<Rightarrow>
               (case MarshalIndent J (fm_Config st) of
                  Inl err \<Rightarrow> (Some err, st)
                | Inr data \<Rightarrow> os_WriteFile path data st)))"

definition ImportConfigFile :: "json \<Rightarrow> string \<Rightarrow> state \<Rightarrow> error option \<times> state" where
  "ImportConfigFile J sourcePath st =
     (case getDefaultConfigPath st of
        Inl err \<Rightarrow> (Some err, st)
      | Inr defaultPath \<Rightarrow>
          (let backup =
             (case os_Stat st defaultPath of
                None \<Rightarrow>
                  (case os_Rename defaultPath (defaultPath @ ''.bak'') st of
                     (Some err, st1) \<Rightarrow> (Some (Wrapped ''failed to create backup'' err), st1)
                   | (None, st1) \<Rightarrow> (None, st1))
              | Some err \<Rightarrow> (if \<not> os_IsNotExist err then (Some err, st) else (None, st)))
           in (case backup of
                 (Some err, st1) \<Rightarrow> (Some err, st1)
               | (None, st1) \<Rightarrow>
                   (case os_ReadFile st1 sourcePath of
                      Inl err \<Rightarrow> (Some (Wrapped ''failed to read import file'' err), st1)
                    | Inr data \<Rightarrow>
                        (case os_MkdirAll st1 (filepath_Dir defaultPath) of
                           Some err \<Rightarrow> (Some err, st1)
                         | None \<Rightarrow>
                             (case os_WriteFile defaultPath data st1 of
                                (Some err, st2) \<Rightarrow>
                                  (Some (Wrapped ''failed to write new config file'' err), st2)
                              | (None, st2) \<Rightarrow> LoadConfig J st2))))))"

text \<open>
  Indices are Go \<^verbatim>\<open>int\<close>s. \<^verbatim>\<open>append(s[:i], s[i+1:]...)\<close> is the slice without its
  element at \<open>i\<close>.
\<close>

definition remove_at :: "nat \<Rightarrow> 'a list \<Rightarrow> 'a list" where
  "remove_at i xs = take i xs @ drop (i + 1) xs"

definition UpdateFirewallRule :: "json \<Rightarrow> int \<Rightarrow> FirewallRule \<Rightarrow> state \<Rightarrow> error option \<times> state" where
  "UpdateFirewallRule J index rule st =
     (case LoadConfig J st of
        (Some err, st1) \<Rightarrow> (Some err, st1)
      | (None, st1) \<Rightarrow>
          (if index < 0 \<or> index \<ge> int (length (FirewallRules (fm_Config st1)))
           then (Some InvalidRuleIndex, st1)
           else SaveConfig J
                  (st1\<lparr>fm_Config := (fm_Config st1)
                     \<lparr>FirewallRules := (FirewallRules (fm_Config st1))[nat index := rule]\<rparr>\<rparr>)))"

definition DeleteFirewallRule :: "json \<Rightarrow> int \<Rightarrow> state \<Rightarrow> error option \<times> state" where
  "DeleteFirewallRule J index st =
     (case LoadConfig J st of
        (Some err, st1) \<Rightarrow> (Some err, st1)
      | (None, st1) \<Rightarrow>
          (if index < 0 \<or> index \<ge> int (length (FirewallRules (fm_Config st1)))
           then (Some InvalidRuleIndex, st1)
           else SaveConfig J
                  (st1\<lparr>fm_Config := (fm_Config st1)
                     \<lparr>FirewallRules := remove_at (nat index) (FirewallRules (fm_Config st1))\<rparr>\<rparr>)))"

definition UpdatePortForwardingRule ::
  "json \<Rightarrow> int \<Rightarrow> PortForwardingRule \<Rightarrow> state \<Rightarrow> error option \<times> state" where
  "UpdatePortForwardingRule J index rule st =
     (case LoadConfig J st of
        (Some err, st1) \<Rightarrow> (Some err, st1)
      | (None, st1) \<Rightarrow>
          (if index < 0 \<or> index \<ge> int (length (PortForwardingRules (fm_Config st1)))
           then (Some InvalidRuleIndex, st1)
           else SaveConfig J
                  (st1\<lparr>fm_Config := (fm_Config st1)
                     \<lparr>PortForwardingRules :=
                        (PortForwardingRules (fm_Config st1))[nat index := rule]\<rparr>\<rparr>)))"

definition DeletePortForwardingRule :: "json \<Rightarrow> int \<Rightarrow> state \<Rightarrow> error option \<times> state" where
  "DeletePortForwardingRule J index st =
     (case LoadConfig J st of
        (Some err, st1) \<Rightarrow> (Some err, st1)
      | (None, st1) \<Rightarrow>
          (if index < 0 \<or> index \<ge> int (length (PortForwardingRules (fm_Config st1)))
           then (Some InvalidRuleIndex, st1)
           else SaveConfig J
                  (st1\<lparr>fm_Config := (fm_Config st1)
                     \<lparr>PortForwardingRules :=
                        remove_at (nat index) (PortForwardingRules (fm_Config st1))\<rparr>\<rparr>)))"

text \<open>
  The body shared by \<^verbatim>\<open>MoveFirewallRule\<close> and \<^verbatim>\<open>MovePortForwardingRule\<close>, on the
  slice: \<^verbatim>\<open>tmp\<close> is the slice without the rule at \<open>from\<close>, \<^verbatim>\<open>final\<close> is
  \<^verbatim>\<open>tmp[:to]\<close>, the rule, \<^verbatim>\<open>tmp[to:]\<close>.
\<close>

definition move :: "int \<Rightarrow> int \<Rightarrow> 'a list \<Rightarrow> 'a list" where
  "move from to xs =
     (if from < 0 \<or> from \<ge> int (length xs) \<or> to < 0 \<or> to \<ge> int (length xs) then xs
      else if from = to then xs
      else
        (let rule = xs ! nat from;
             tmp = remove_at (nat from) xs
         in take (nat to) tmp @ [rule] @ drop (nat to) tmp))"

definition MoveFirewallRule :: "int \<Rightarrow> int \<Rightarrow> state \<Rightarrow> state" where
  "MoveFirewallRule from to st =
     st\<lparr>fm_Config := (fm_Config st)
          \<lparr>FirewallRules := move from to (FirewallRules (fm_Config st))\<rparr>\<rparr>"

definition MovePortForwardingRule :: "int \<Rightarrow> int \<Rightarrow> state \<Rightarrow> state" where
  "MovePortForwardingRule from to st =
     st\<lparr>fm_Config := (fm_Config st)
          \<lparr>PortForwardingRules := move from to (PortForwardingRules (fm_Config st))\<rparr>\<rparr>"

section \<open>Example documents and the behaviour of \<^verbatim>\<open>encoding/json\<close> on them\<close>

text \<open>
  The port forwarding rule of the specification's worked example, the document made of the
  two worked examples, the empty document, and a document whose one rule has a description
  that is not valid UTF-8 (the single byte \<^verbatim>\<open>0xFF\<close>).
\<close>

definition fwd_rule :: PortForwardingRule where
  "fwd_rule =
     \<lparr>rdr_Interface = ''en0'', rdr_Protocol = ''tcp'', ExternalIP = ''any'',
      ExternalPort = ''8080'', InternalIP = ''192.168.1.5'', InternalPort = ''80'',
      rdr_Description = ''web fwd''\<rparr>"

definition example_doc :: Config where
  "example_doc = \<lparr>FirewallRules = [web_rule], PortForwardingRules = [fwd_rule]\<rparr>"

definition empty_doc :: Config where
  "empty_doc = \<lparr>FirewallRules = [], PortForwardingRules = []\<rparr>"

definition bad_rule :: FirewallRule where
  "bad_rule = all_rule\<lparr>Description := [CHR 0xFF]\<rparr>"

definition bad_doc :: Config where
  "bad_doc = \<lparr>FirewallRules = [bad_rule], PortForwardingRules = []\<rparr>"

text \<open>
  What \<^verbatim>\<open>json.MarshalIndent(cfg, "", "  ")\<close> writes for these documents. In the last
  one the invalid byte has become the escape of U+FFFD: \<^verbatim>\<open>encoding/json\<close> encodes
  strings ``coerced to valid UTF-8, replacing invalid bytes with the Unicode replacement
  rune''.
\<close>

definition example_text :: string where
  \<open>example_text = strings_Join
     [''{'',
      ''  "filter_rules": ['',
      ''    {'',
      ''      "action": "pass",'',
      ''      "direction": "in",'',
      ''      "quick": false,'',
      ''      "interface": "any",'',
      ''      "protocol": "any",'',
      ''      "source": "any",'',
      ''      "destination": "any",'',
      ''      "port": "22,80",'',
      ''      "keep_state": true,'',
      ''      "description": "web"'',
      ''    }'',
      ''  ],'',
      ''  "rdr_rules": ['',
      ''    {'',
      ''      "interface": "en0",'',
      ''      "protocol": "tcp",'',
      ''      "external_ip": "any",'',
      ''      "external_port": "8080",'',
      ''      "internal_ip": "192.168.1.5",'',
      ''      "internal_port": "80",'',
      ''      "description": "web fwd"'',
      ''    }'',
      ''  ]'',
      ''}''] ''\<newline>''\<close>

definition empty_text :: string where
  \<open>empty_text = strings_Join
     [''{'',
      ''  "filter_rules": [],'',
      ''  "rdr_rules": []'',
      ''}''] ''\<newline>''\<close>

definition bad_text :: string where
  \<open>bad_text = strings_Join
     [''{'',
      ''  "filter_rules": ['',
      ''    {'',
      ''      "action": "pass",'',
      ''      "direction": "out",'',
      ''      "quick": false,'',
      ''      "interface": "any",'',
      ''      "protocol": "any",'',
      ''      "source": "any",'',
      ''      "destination": "any",'',
      ''      "port": "any",'',
      ''      "keep_state": true,'',
      ''      "description": "'' @ [CHR 0x5C] @ ''ufffd"'',
      ''    }'',
      ''  ],'',
      ''  "rdr_rules": []'',
      ''}''] ''\<newline>''\<close>

text \<open>
  A document file written by hand that names the filter rules only, and a file that is not
  JSON.
\<close>

definition filter_only_text :: string where
  \<open>filter_only_text = ''{"filter_rules": []}''\<close>

definition garbage_text :: string where
  "garbage_text = ''not json''"

text \<open>
  What \<^verbatim>\<open>json.Unmarshal\<close> reads back from \<open>bad_text\<close>: the description is U+FFFD in
  UTF-8, three bytes, not the byte that was saved.
\<close>

definition coerced_doc :: Config where
  "coerced_doc =
     \<lparr>FirewallRules = [all_rule\<lparr>Description := [CHR 0xEF, CHR 0xBF, CHR 0xBD]\<rparr>],
      PortForwardingRules = []\<rparr>"

text \<open>
  The behaviour of \<^verbatim>\<open>encoding/json\<close> on these documents and texts, as a table; it
  instantiates the parameter of the store in the examples. \<^verbatim>\<open>Unmarshal\<close> sets the
  fields that the text names and leaves the others as they are in the document it is
  given, so \<open>filter_only_text\<close> empties the filter rules and keeps the port forwarding
  rules. Outside the table the entries are an error; the examples stay inside it.
\<close>

definition table_MarshalIndent :: "Config \<Rightarrow> error + string" where
  "table_MarshalIndent cfg =
     (if cfg = example_doc then Inr example_text
      else if cfg = empty_doc then Inr empty_text
      else if cfg = bad_doc then Inr bad_text
      else Inl (JSONError ''document outside the table''))"

definition table_Unmarshal :: "string \<Rightarrow> Config \<Rightarrow> error option \<times> Config" where
  "table_Unmarshal data cfg =
     (if data = example_text then (None, example_doc)
      else if data = empty_text then (None, empty_doc)
      else if data = bad_text then (None, coerced_doc)
      else if data = filter_only_text then (None, cfg\<lparr>FirewallRules := []\<rparr>)
      else (Some (JSONError ''invalid character''), cfg))"

definition table_json :: json where
  "table_json = \<lparr>MarshalIndent = table_MarshalIndent, Unmarshal = table_Unmarshal\<rparr>"

text \<open>
  A machine on which no file operation fails for a reason other than a missing file, with
  the given files and document.
\<close>

definition machine :: "(string \<rightharpoonup> string) \<Rightarrow> Config \<Rightarrow> state" where
  "machine fs cfg =
     \<lparr>home = Some ''/Users/u'', files = fs, fails = (\<lambda>op p. False), fm_Config = cfg\<rparr>"

definition rules_json :: string where
  "rules_json = ''/Users/u/.config/pf-tui/rules.json''"

section \<open>The compiled text\<close>

lemma TrimSpace_tcp: "strings_TrimSpace ''tcp'' = ''tcp''"
  by code_simp

lemma TrimSpace_udp: "strings_TrimSpace ''udp'' = ''udp''"
  by code_simp

lemma GeneratePfConf_rdr_split:
  "GeneratePfConf \<lparr>FirewallRules = frs, PortForwardingRules = xs @ [rule] @ ys\<rparr> =
     GeneratePfConf \<lparr>FirewallRules = [], PortForwardingRules = xs\<rparr>
     @ rdr_text rule
     @ GeneratePfConf \<lparr>FirewallRules = frs, PortForwardingRules = ys\<rparr>"
  by (simp add: GeneratePfConf_def)

lemma GeneratePfConf_rule_split:
  "GeneratePfConf \<lparr>FirewallRules = xs @ [rule] @ ys, PortForwardingRules = pfs\<rparr> =
     GeneratePfConf \<lparr>FirewallRules = xs, PortForwardingRules = pfs\<rparr>
     @ rule_text rule
     @ GeneratePfConf \<lparr>FirewallRules = ys, PortForwardingRules = []\<rparr>"
  by (simp add: GeneratePfConf_def)

lemma strings_Join_append:
  "xs \<noteq> [] \<Longrightarrow> ys \<noteq> [] \<Longrightarrow>
   strings_Join (xs @ ys) sep = strings_Join xs sep @ sep @ strings_Join ys sep"
proof (induction xs sep rule: strings_Join.induct)
  case (1 sep)
  then show ?case by simp
next
  case (2 x sep)
  then show ?case by (cases ys) simp_all
next
  case (3 x y ys sep)
  then show ?case by simp
qed

lemma head_parts_nonempty: "head_parts rule \<noteq> []"
  by (simp add: head_parts_def)

text \<open>
  Claim C1. A filter rule whose protocol is \<^verbatim>\<open>any\<close> and whose port is not \<^verbatim>\<open>any\<close>
  gives exactly two rule lines, the lines of the tokens \<^verbatim>\<open>tcp\<close> and \<^verbatim>\<open>udp\<close>, whose
  token lists are the same before and after the two tokens \<^verbatim>\<open>proto tcp\<close> and
  \<^verbatim>\<open>proto udp\<close>. Every other rule gives one line for each piece of its protocol field
  split on commas, the piece trimmed of white space; a protocol \<^verbatim>\<open>any\<close> with port
  \<^verbatim>\<open>any\<close> gives the one line of the token \<^verbatim>\<open>any\<close>. The lines stand in the output
  at the rule's place, after its comment line. The rule of the worked example compiles to
  the three lines of the specification.
\<close>

theorem protocol_expansion:
  "(Protocol rule = ''any'' \<and> Port rule \<noteq> ''any'' \<longrightarrow>
      rule_lines rule =
        [strings_Join (parts rule ''tcp'') '' '' @ ''\<newline>'',
         strings_Join (parts rule ''udp'') '' '' @ ''\<newline>'']
      \<and> (\<exists>pre post. parts rule ''tcp'' = pre @ [''proto'', ''tcp''] @ post
                    \<and> parts rule ''udp'' = pre @ [''proto'', ''udp''] @ post))
   \<and> (\<not> (Protocol rule = ''any'' \<and> Port rule \<noteq> ''any'') \<longrightarrow>
      rule_lines rule =
        map (\<lambda>token. strings_Join (parts rule (strings_TrimSpace token)) '' '' @ ''\<newline>'')
          (strings_Split (Protocol rule) (CHR '','')))
   \<and> (Protocol rule = ''any'' \<and> Port rule = ''any'' \<longrightarrow>
      rule_lines rule = [strings_Join (parts rule ''any'') '' '' @ ''\<newline>''])
   \<and> GeneratePfConf \<lparr>FirewallRules = xs @ [rule] @ ys, PortForwardingRules = pfs\<rparr> =
       GeneratePfConf \<lparr>FirewallRules = xs, PortForwardingRules = pfs\<rparr>
       @ (if Description rule \<noteq> [] then ''# '' @ Description rule @ ''\<newline>'' else [])
       @ concat (rule_lines rule)
       @ GeneratePfConf \<lparr>FirewallRules = ys, PortForwardingRules = []\<rparr>
   \<and> GeneratePfConf
         \<lparr>FirewallRules =
            [\<lparr>Action = ''pass'', Direction = ''in'', Quick = False, Interface = ''any'',
              Protocol = ''any'', Source = ''any'', Destination = ''any'', Port = ''22,80'',
              KeepState = True, Description = ''web''\<rparr>],
          PortForwardingRules = []\<rparr>
       = ''# web\<newline>pass in proto tcp from any to any port {22,80} keep state\<newline>pass in proto udp from any to any port {22,80} keep state\<newline>''"
proof (intro conjI impI)
  assume a: "Protocol rule = ''any'' \<and> Port rule \<noteq> ''any''"
  then show "rule_lines rule =
        [strings_Join (parts rule ''tcp'') '' '' @ ''\<newline>'',
         strings_Join (parts rule ''udp'') '' '' @ ''\<newline>'']"
    by (simp add: rule_lines_def protocols_def rule_line_def TrimSpace_tcp TrimSpace_udp)
  have "parts rule ''tcp'' =
          head_parts rule @ [''proto'', ''tcp''] @ (address_clause rule @ port_clause rule ''tcp'' @ state_clause rule)"
    using a by (simp add: parts_def proto_clause_def)
  moreover have "parts rule ''udp'' =
          head_parts rule @ [''proto'', ''udp''] @ (address_clause rule @ port_clause rule ''tcp'' @ state_clause rule)"
    using a by (simp add: parts_def proto_clause_def port_clause_def)
  ultimately show "\<exists>pre post. parts rule ''tcp'' = pre @ [''proto'', ''tcp''] @ post
                    \<and> parts rule ''udp'' = pre @ [''proto'', ''udp''] @ post"
    by blast
next
  assume "\<not> (Protocol rule = ''any'' \<and> Port rule \<noteq> ''any'')"
  then show "rule_lines rule =
        map (\<lambda>token. strings_Join (parts rule (strings_TrimSpace token)) '' '' @ ''\<newline>'')
          (strings_Split (Protocol rule) (CHR '',''))"
    by (auto simp: rule_lines_def protocols_def rule_line_def)
next
  assume "Protocol rule = ''any'' \<and> Port rule = ''any''"
  moreover have "strings_TrimSpace ''any'' = ''any''" by code_simp
  ultimately show "rule_lines rule = [strings_Join (parts rule ''any'') '' '' @ ''\<newline>'']"
    by (simp add: rule_lines_def protocols_def rule_line_def)
next
  show "GeneratePfConf \<lparr>FirewallRules = xs @ [rule] @ ys, PortForwardingRules = pfs\<rparr> =
       GeneratePfConf \<lparr>FirewallRules = xs, PortForwardingRules = pfs\<rparr>
       @ (if Description rule \<noteq> [] then ''# '' @ Description rule @ ''\<newline>'' else [])
       @ concat (rule_lines rule)
       @ GeneratePfConf \<lparr>FirewallRules = ys, PortForwardingRules = []\<rparr>"
    by (simp only: GeneratePfConf_rule_split rule_text_def append_assoc)
next
  show "GeneratePfConf
         \<lparr>FirewallRules =
            [\<lparr>Action = ''pass'', Direction = ''in'', Quick = False, Interface = ''any'',
              Protocol = ''any'', Source = ''any'', Destination = ''any'', Port = ''22,80'',
              KeepState = True, Description = ''web''\<rparr>],
          PortForwardingRules = []\<rparr>
       = ''# web\<newline>pass in proto tcp from any to any port {22,80} keep state\<newline>pass in proto udp from any to any port {22,80} keep state\<newline>''"
    by code_simp
qed

theorem protocol_expansion_witness:
  "rule_lines web_rule =
     [''pass in proto tcp from any to any port {22,80} keep state\<newline>'',
      ''pass in proto udp from any to any port {22,80} keep state\<newline>'']
   \<and> rule_lines lan_rule =
     [''block out proto tcp from 10.0.0.0/8 to any\<newline>'',
      ''block out proto icmp from 10.0.0.0/8 to any\<newline>'']
   \<and> rule_lines all_rule = [''pass out all keep state\<newline>'']"
proof -
  have h1: "Protocol web_rule = ''any'' \<and> Port web_rule \<noteq> ''any''"
    by (simp add: web_rule_def)
  have h2: "\<not> (Protocol lan_rule = ''any'' \<and> Port lan_rule \<noteq> ''any'')"
    by (simp add: lan_rule_def)
  have h3: "Protocol all_rule = ''any'' \<and> Port all_rule = ''any''"
    by (simp add: all_rule_def)
  from protocol_expansion [of web_rule "[]" "[]" "[]"] h1
  have "rule_lines web_rule =
        [strings_Join (parts web_rule ''tcp'') '' '' @ ''\<newline>'',
         strings_Join (parts web_rule ''udp'') '' '' @ ''\<newline>'']"
    by blast
  also have "\<dots> = [''pass in proto tcp from any to any port {22,80} keep state\<newline>'',
      ''pass in proto udp from any to any port {22,80} keep state\<newline>'']"
    by code_simp
  finally have c1: "rule_lines web_rule =
     [''pass in proto tcp from any to any port {22,80} keep state\<newline>'',
      ''pass in proto udp from any to any port {22,80} keep state\<newline>'']" .
  from protocol_expansion [of lan_rule "[]" "[]" "[]"] h2
  have "rule_lines lan_rule =
        map (\<lambda>token. strings_Join (parts lan_rule (strings_TrimSpace token)) '' '' @ ''\<newline>'')
          (strings_Split (Protocol lan_rule) (CHR '',''))"
    by blast
  also have "\<dots> = [''block out proto tcp from 10.0.0.0/8 to any\<newline>'',
      ''block out proto icmp from 10.0.0.0/8 to any\<newline>'']"
    by code_simp
  finally have c2: "rule_lines lan_rule =
     [''block out proto tcp from 10.0.0.0/8 to any\<newline>'',
      ''block out proto icmp from 10.0.0.0/8 to any\<newline>'']" .
  from protocol_expansion [of all_rule "[]" "[]" "[]"] h3
  have "rule_lines all_rule = [strings_Join (parts all_rule ''any'') '' '' @ ''\<newline>'']"
    by blast
  also have "\<dots> = [''pass out all keep state\<newline>'']"
    by code_simp
  finally have c3: "rule_lines all_rule = [''pass out all keep state\<newline>'']" .
  from c1 c2 c3 show ?thesis
    by blast
qed

text \<open>
  Claim C5. For a rule whose port is not \<^verbatim>\<open>any\<close> and a protocol token \<^verbatim>\<open>tcp\<close> or
  \<^verbatim>\<open>udp\<close>, the tokens of the line are the head, the protocol clause, the address
  clause, then \<^verbatim>\<open>port\<close> and the port string, then the state clause; in the text the
  clause reads \<^verbatim>\<open> port <portStr>\<close>. A port that contains a comma, a hyphen or a colon
  is written between braces with every hyphen replaced by a colon; a port of digits only
  is written as it is. For a token that is neither \<^verbatim>\<open>tcp\<close> nor \<^verbatim>\<open>udp\<close> the port
  clause is empty and the line has no such clause.
\<close>

theorem port_clause_format:
  "(Port rule \<noteq> ''any'' \<and> (proto = ''tcp'' \<or> proto = ''udp'') \<longrightarrow>
      parts rule proto =
        head_parts rule @ [''proto'', proto] @ address_clause rule
        @ [''port'', portStr (Port rule)] @ state_clause rule
      \<and> strings_Join (parts rule proto) '' '' =
        strings_Join (head_parts rule @ [''proto'', proto] @ address_clause rule) '' ''
        @ '' port '' @ portStr (Port rule)
        @ (if KeepState rule then '' keep state'' else []))
   \<and> (CHR '','' \<in> set port \<or> CHR ''-'' \<in> set port \<or> CHR '':'' \<in> set port \<longrightarrow>
      portStr port = ''{'' @ map (\<lambda>c. if c = CHR ''-'' then CHR '':'' else c) port @ ''}''
      \<and> CHR ''-'' \<notin> set (portStr port))
   \<and> ((\<forall>c \<in> set port. c \<in> set ''0123456789'') \<longrightarrow> portStr port = port)
   \<and> (proto \<noteq> ''tcp'' \<and> proto \<noteq> ''udp'' \<longrightarrow>
      port_clause rule proto = []
      \<and> parts rule proto =
        head_parts rule
        @ (if proto = ''any'' \<and> Source rule = ''any'' \<and> Destination rule = ''any''
              \<and> Port rule = ''any''
           then [''all'']
           else proto_clause proto @ address_clause rule)
        @ state_clause rule)"
proof (intro conjI impI)
  assume a: "Port rule \<noteq> ''any'' \<and> (proto = ''tcp'' \<or> proto = ''udp'')"
  then show p: "parts rule proto =
        head_parts rule @ [''proto'', proto] @ address_clause rule
        @ [''port'', portStr (Port rule)] @ state_clause rule"
    by (auto simp: parts_def proto_clause_def port_clause_def)
  have "strings_Join ((head_parts rule @ [''proto'', proto] @ address_clause rule)
          @ ([''port'', portStr (Port rule)] @ state_clause rule)) '' '' =
        strings_Join (head_parts rule @ [''proto'', proto] @ address_clause rule) '' ''
        @ '' '' @ strings_Join ([''port'', portStr (Port rule)] @ state_clause rule) '' ''"
    by (rule strings_Join_append) (simp_all add: head_parts_nonempty)
  then show "strings_Join (parts rule proto) '' '' =
        strings_Join (head_parts rule @ [''proto'', proto] @ address_clause rule) '' ''
        @ '' port '' @ portStr (Port rule)
        @ (if KeepState rule then '' keep state'' else [])"
    by (simp add: p state_clause_def)
next
  assume "CHR '','' \<in> set port \<or> CHR ''-'' \<in> set port \<or> CHR '':'' \<in> set port"
  then show "portStr port = ''{'' @ map (\<lambda>c. if c = CHR ''-'' then CHR '':'' else c) port @ ''}''"
    by (simp add: portStr_def strings_Contains_def strings_ReplaceAll_def)
  then show "CHR ''-'' \<notin> set (portStr port)"
    by (simp add: image_iff)
next
  assume d: "\<forall>c \<in> set port. c \<in> set ''0123456789''"
  have "CHR '','' \<notin> set ''0123456789''" "CHR ''-'' \<notin> set ''0123456789''"
    "CHR '':'' \<notin> set ''0123456789''"
    by simp_all
  with d have "CHR '','' \<notin> set port" "CHR ''-'' \<notin> set port" "CHR '':'' \<notin> set port"
    by blast+
  then show "portStr port = port"
    by (simp add: portStr_def strings_Contains_def)
next
  assume "proto \<noteq> ''tcp'' \<and> proto \<noteq> ''udp''"
  then show c: "port_clause rule proto = []"
    by (simp add: port_clause_def)
  show "parts rule proto =
        head_parts rule
        @ (if proto = ''any'' \<and> Source rule = ''any'' \<and> Destination rule = ''any''
              \<and> Port rule = ''any''
           then [''all'']
           else proto_clause proto @ address_clause rule)
        @ state_clause rule"
    by (simp add: parts_def c)
qed

theorem port_clause_format_witness:
  "strings_Join (parts range_rule ''tcp'') '' '' = ''pass in quick on en0 proto tcp from any to any port {8000:8080}''
   \<and> portStr ''8000-8080'' = ''{8000:8080}''
   \<and> portStr ''443'' = ''443''
   \<and> parts range_rule ''icmp'' = [''pass'', ''in'', ''quick'', ''on'', ''en0'', ''proto'', ''icmp'', ''from'', ''any'', ''to'', ''any'']"
proof -
  have h1: "Port range_rule \<noteq> ''any'' \<and> (''tcp'' = ''tcp'' \<or> ''tcp'' = ''udp'')"
    by (simp add: range_rule_def)
  have h2: "CHR '','' \<in> set ''8000-8080'' \<or> CHR ''-'' \<in> set ''8000-8080'' \<or> CHR '':'' \<in> set ''8000-8080''"
    by simp
  have h3: "\<forall>c \<in> set ''443''. c \<in> set ''0123456789''"
    by simp
  have h4: "''icmp'' \<noteq> ''tcp'' \<and> ''icmp'' \<noteq> ''udp''"
    by simp
  note t1 = port_clause_format [of range_rule "''tcp''" "''8000-8080''"]
  note t2 = port_clause_format [of range_rule "''icmp''" "''443''"]
  from t1 h1 have "strings_Join (parts range_rule ''tcp'') '' '' =
        strings_Join (head_parts range_rule @ [''proto'', ''tcp''] @ address_clause range_rule) '' ''
        @ '' port '' @ portStr (Port range_rule)
        @ (if KeepState range_rule then '' keep state'' else [])"
    by blast
  moreover from t1 h2 have p: "portStr ''8000-8080'' = ''{'' @ map (\<lambda>c. if c = CHR ''-'' then CHR '':'' else c) ''8000-8080'' @ ''}''"
    by blast
  moreover from t2 h3 have "portStr ''443'' = ''443''"
    by blast
  moreover from t2 h4 have "parts range_rule ''icmp'' =
        head_parts range_rule
        @ (if ''icmp'' = ''any'' \<and> Source range_rule = ''any'' \<and> Destination range_rule = ''any''
              \<and> Port range_rule = ''any''
           then [''all'']
           else proto_clause ''icmp'' @ address_clause range_rule)
        @ state_clause range_rule"
    by blast
  ultimately show ?thesis
    by (simp add: range_rule_def head_parts_def address_clause_def proto_clause_def state_clause_def)
qed

text \<open>
  Claim C6. A port forwarding rule whose interface is not \<^verbatim>\<open>any\<close> is written, at its
  place in the output and after its comment line if it has a description, as
  \<^verbatim>\<open>rdr on <interface> proto <protocol> from any to <target> port <externalPort> ->
  <internalIP> port <internalPort>\<close> and a newline, where the target is the external
  address, or \<^verbatim>\<open>(<interface>)\<close> when the external address is \<^verbatim>\<open>any\<close>. The rule of
  the worked example (interface \<^verbatim>\<open>en0\<close>, protocol \<^verbatim>\<open>tcp\<close>, external address
  \<^verbatim>\<open>any\<close>, external port 8080, internal address 192.168.1.5, internal port 80,
  description \<^verbatim>\<open>web fwd\<close>) compiles to exactly the text of the specification.
\<close>

theorem rdr_on_interface:
  "(rdr_Interface rule \<noteq> ''any'' \<longrightarrow>
      GeneratePfConf \<lparr>FirewallRules = frs, PortForwardingRules = xs @ [rule] @ ys\<rparr> =
        GeneratePfConf \<lparr>FirewallRules = [], PortForwardingRules = xs\<rparr>
        @ (if rdr_Description rule \<noteq> [] then ''# '' @ rdr_Description rule @ ''\<newline>'' else [])
        @ ''rdr on '' @ rdr_Interface rule @ '' proto '' @ rdr_Protocol rule
        @ '' from any to ''
        @ (if ExternalIP rule = ''any'' then ''('' @ rdr_Interface rule @ '')''
           else ExternalIP rule)
        @ '' port '' @ ExternalPort rule @ '' -> '' @ InternalIP rule
        @ '' port '' @ InternalPort rule @ ''\<newline>''
        @ GeneratePfConf \<lparr>FirewallRules = frs, PortForwardingRules = ys\<rparr>)
   \<and> GeneratePfConf
         \<lparr>FirewallRules = [],
          PortForwardingRules =
            [\<lparr>rdr_Interface = ''en0'', rdr_Protocol = ''tcp'', ExternalIP = ''any'',
              ExternalPort = ''8080'', InternalIP = ''192.168.1.5'', InternalPort = ''80'',
              rdr_Description = ''web fwd''\<rparr>]\<rparr>
       = ''# web fwd\<newline>rdr on en0 proto tcp from any to (en0) port 8080 -> 192.168.1.5 port 80\<newline>''"
proof (intro conjI impI)
  assume "rdr_Interface rule \<noteq> ''any''"
  then have "rdr_text rule =
      (if rdr_Description rule \<noteq> [] then ''# '' @ rdr_Description rule @ ''\<newline>'' else [])
      @ ''rdr on '' @ rdr_Interface rule @ '' proto '' @ rdr_Protocol rule
      @ '' from any to ''
      @ (if ExternalIP rule = ''any'' then ''('' @ rdr_Interface rule @ '')''
         else ExternalIP rule)
      @ '' port '' @ ExternalPort rule @ '' -> '' @ InternalIP rule
      @ '' port '' @ InternalPort rule @ ''\<newline>''"
    by (simp add: rdr_text_def rdrStr_def Let_def)
  then show "GeneratePfConf \<lparr>FirewallRules = frs, PortForwardingRules = xs @ [rule] @ ys\<rparr> =
        GeneratePfConf \<lparr>FirewallRules = [], PortForwardingRules = xs\<rparr>
        @ (if rdr_Description rule \<noteq> [] then ''# '' @ rdr_Description rule @ ''\<newline>'' else [])
        @ ''rdr on '' @ rdr_Interface rule @ '' proto '' @ rdr_Protocol rule
        @ '' from any to ''
        @ (if ExternalIP rule = ''any'' then ''('' @ rdr_Interface rule @ '')''
           else ExternalIP rule)
        @ '' port '' @ ExternalPort rule @ '' -> '' @ InternalIP rule
        @ '' port '' @ InternalPort rule @ ''\<newline>''
        @ GeneratePfConf \<lparr>FirewallRules = frs, PortForwardingRules = ys\<rparr>"
    by (simp only: GeneratePfConf_rdr_split append_assoc)
next
  show "GeneratePfConf
         \<lparr>FirewallRules = [],
          PortForwardingRules =
            [\<lparr>rdr_Interface = ''en0'', rdr_Protocol = ''tcp'', ExternalIP = ''any'',
              ExternalPort = ''8080'', InternalIP = ''192.168.1.5'', InternalPort = ''80'',
              rdr_Description = ''web fwd''\<rparr>]\<rparr>
       = ''# web fwd\<newline>rdr on en0 proto tcp from any to (en0) port 8080 -> 192.168.1.5 port 80\<newline>''"
    by (simp add: GeneratePfConf_def rdr_text_def rdrStr_def)
qed

theorem rdr_on_interface_witness:
  "GeneratePfConf
     \<lparr>FirewallRules = [],
      PortForwardingRules =
        [\<lparr>rdr_Interface = ''en0'', rdr_Protocol = ''tcp'', ExternalIP = ''10.0.0.1'',
          ExternalPort = ''8080'', InternalIP = ''192.168.1.5'', InternalPort = ''80'',
          rdr_Description = []\<rparr>]\<rparr>
   = ''rdr on en0 proto tcp from any to 10.0.0.1 port 8080 -> 192.168.1.5 port 80\<newline>''"
  using rdr_on_interface
    [of "\<lparr>rdr_Interface = ''en0'', rdr_Protocol = ''tcp'', ExternalIP = ''10.0.0.1'',
          ExternalPort = ''8080'', InternalIP = ''192.168.1.5'', InternalPort = ''80'',
          rdr_Description = []\<rparr>" "[]" "[]" "[]"]
  by (simp add: GeneratePfConf_def)

section \<open>The parse of the live rules\<close>

text \<open>
  The line of the specification's example parses to the rule it names; blank lines and
  lines of fewer than four tokens are skipped; a token that is no keyword is ignored.
\<close>

lemma ParseLiveRules_examples:
  "ParseLiveRules ''pass in proto tcp from any to any port 22 keep state'' =
     Inr [zero_rule\<lparr>Action := ''pass'', Direction := ''in'', Protocol := ''tcp'',
            Source := ''any'', Destination := ''any'', Port := ''22'', KeepState := True\<rparr>]"
  "ParseLiveRules ''\<newline>   \<newline>pass in all\<newline>No ALTQ support\<newline>'' = Inr []"
  "ParseLiveRules ''block drop in quick on en0 all'' =
     Inr [zero_rule\<lparr>Action := ''block'', Direction := ''drop'', Quick := True,
            Interface := ''en0''\<rparr>]"
  by code_simp+

text \<open>
  Claim C4 says that no input makes \<^verbatim>\<open>ParseLiveRules\<close> fail. A line of four tokens
  that ends in \<^verbatim>\<open>on\<close>, \<^verbatim>\<open>proto\<close>, \<^verbatim>\<open>from\<close>, \<^verbatim>\<open>to\<close> or \<^verbatim>\<open>port\<close> passes the
  length check and then makes the loop read \<^verbatim>\<open>parts[4]\<close>: the parse panics with an
  index out of range. A last token \<^verbatim>\<open>keep\<close> reads nothing and is harmless.
\<close>

theorem ParseLiveRules_panics:
  "ParseLiveRules ''pass in quick on'' = Inl IndexOutOfRange
   \<and> ParseLiveRules ''pass in quick proto'' = Inl IndexOutOfRange
   \<and> ParseLiveRules ''pass in quick from'' = Inl IndexOutOfRange
   \<and> ParseLiveRules ''pass in quick to'' = Inl IndexOutOfRange
   \<and> ParseLiveRules ''pass in quick port'' = Inl IndexOutOfRange
   \<and> ParseLiveRules ''block in all\<newline>pass in on en0 proto tcp from any to'' = Inl IndexOutOfRange
   \<and> ParseLiveRules ''pass in quick keep'' = Inr [zero_rule\<lparr>Action := ''pass'', Direction := ''in'', Quick := True, KeepState := True\<rparr>]"
  by code_simp

section \<open>The rule store: reordering, reloading, saving, importing\<close>

lemma length_remove_at: "i < length xs \<Longrightarrow> length (remove_at i xs) = length xs - 1"
  by (simp add: remove_at_def)

lemma remove_at_nth:
  "i < length xs \<Longrightarrow> k < length xs - 1 \<Longrightarrow>
   remove_at i xs ! k = (if k < i then xs ! k else xs ! (k + 1))"
  by (auto simp: remove_at_def nth_append min_def)

lemma insert_nth:
  "t \<le> length tmp \<Longrightarrow> k \<le> length tmp \<Longrightarrow>
   (take t tmp @ [x] @ drop t tmp) ! k =
     (if k < t then tmp ! k else if k = t then x else tmp ! (k - 1))"
  by (auto simp: nth_append min_def)

lemma remove_at_insert:
  "t \<le> length tmp \<Longrightarrow> remove_at t (take t tmp @ [x] @ drop t tmp) = tmp"
  by (simp add: remove_at_def min_def)

lemma move_in_range:
  assumes "0 \<le> from" "from < int (length xs)" "0 \<le> to" "to < int (length xs)" "from \<noteq> to"
  shows "move from to xs =
           take (nat to) (remove_at (nat from) xs) @ [xs ! nat from]
           @ drop (nat to) (remove_at (nat from) xs)"
  using assms by (simp add: move_def Let_def)

lemma LoadConfig_missing:
  "getDefaultConfigPath st = Inr path \<Longrightarrow> \<not> fails st OpReadFile path \<Longrightarrow>
   files st path = None \<Longrightarrow>
   LoadConfig J st = (None, st\<lparr>fm_Config := \<lparr>FirewallRules = [], PortForwardingRules = []\<rparr>\<rparr>)"
  by (simp add: LoadConfig_def os_ReadFile_def os_IsNotExist_def)

lemma LoadConfig_present:
  "getDefaultConfigPath st = Inr path \<Longrightarrow> \<not> fails st OpReadFile path \<Longrightarrow>
   files st path = Some data \<Longrightarrow>
   LoadConfig J st =
     (fst (Unmarshal J data (fm_Config st)),
      st\<lparr>fm_Config := snd (Unmarshal J data (fm_Config st))\<rparr>)"
  by (cases "Unmarshal J data (fm_Config st)")
     (auto simp: LoadConfig_def os_ReadFile_def split: option.splits)

lemma LoadConfig_reads_only: "\<exists>c. snd (LoadConfig J st) = st\<lparr>fm_Config := c\<rparr>"
proof (cases "getDefaultConfigPath st")
  case (Inl err)
  then have "snd (LoadConfig J st) = st\<lparr>fm_Config := fm_Config st\<rparr>"
    by (simp add: LoadConfig_def)
  then show ?thesis by blast
next
  case (Inr path)
  show ?thesis
  proof (cases "os_ReadFile st path")
    case (Inl err)
    with Inr have "snd (LoadConfig J st) = st\<lparr>fm_Config := fm_Config st\<rparr>
        \<or> snd (LoadConfig J st) =
            st\<lparr>fm_Config := \<lparr>FirewallRules = [], PortForwardingRules = []\<rparr>\<rparr>"
      by (simp add: LoadConfig_def)
    then show ?thesis by blast
  next
    case r: (Inr data)
    with Inr have "snd (LoadConfig J st) = st\<lparr>fm_Config := snd (Unmarshal J data (fm_Config st))\<rparr>"
      by (cases "Unmarshal J data (fm_Config st)")
         (auto simp: LoadConfig_def split: option.splits)
    then show ?thesis by blast
  qed
qed

lemma LoadConfig_files: "files (snd (LoadConfig J st)) = files st"
  using LoadConfig_reads_only [of J st] by auto

lemma LoadConfig_files': "LoadConfig J st = (r, st1) \<Longrightarrow> files st1 = files st"
  using LoadConfig_files [of J st] by simp

lemma SaveConfig_ok:
  "getDefaultConfigPath st = Inr path \<Longrightarrow> \<not> fails st OpMkdirAll (filepath_Dir path) \<Longrightarrow>
   MarshalIndent J (fm_Config st) = Inr data \<Longrightarrow> \<not> fails st OpWriteFile path \<Longrightarrow>
   SaveConfig J st = (None, st\<lparr>files := (files st)(path \<mapsto> data)\<rparr>)"
  by (simp add: SaveConfig_def os_MkdirAll_def os_WriteFile_def)

lemma machine_path: "getDefaultConfigPath (machine fs cfg) = Inr rules_json"
  by (simp add: getDefaultConfigPath_def machine_def filepath_Join_def rules_json_def)

lemma machine_fields:
  "files (machine fs cfg) = fs" "fm_Config (machine fs cfg) = cfg"
  "fails (machine fs cfg) op p = False" "home (machine fs cfg) = Some ''/Users/u''"
  "(machine fs cfg)\<lparr>fm_Config := c\<rparr> = machine fs c"
  "(machine fs cfg)\<lparr>files := g\<rparr> = machine g cfg"
  by (simp_all add: machine_def)

lemma Unmarshal_garbage:
  "Unmarshal table_json garbage_text cfg = (Some (JSONError ''invalid character''), cfg)"
  by (simp add: table_json_def table_Unmarshal_def) code_simp

lemma table_Unmarshal_example: "Unmarshal table_json example_text cfg = (None, example_doc)"
  by (simp add: table_json_def table_Unmarshal_def)

lemma table_Unmarshal_empty: "Unmarshal table_json empty_text cfg = (None, empty_doc)"
  by (simp add: table_json_def table_Unmarshal_def) code_simp

lemma table_Unmarshal_bad: "Unmarshal table_json bad_text cfg = (None, coerced_doc)"
  by (simp add: table_json_def table_Unmarshal_def) code_simp

lemma table_Unmarshal_filter_only:
  "Unmarshal table_json filter_only_text cfg = (None, cfg\<lparr>FirewallRules := []\<rparr>)"
  by (simp add: table_json_def table_Unmarshal_def) code_simp

lemma table_Marshal_example: "MarshalIndent table_json example_doc = Inr example_text"
  by (simp add: table_json_def table_MarshalIndent_def)

lemma table_Marshal_empty: "MarshalIndent table_json empty_doc = Inr empty_text"
  by (simp add: table_json_def table_MarshalIndent_def) code_simp


lemma machine_Load:
  "fs rules_json = Some data \<Longrightarrow>
   LoadConfig J (machine fs cfg) =
     (fst (Unmarshal J data cfg), machine fs (snd (Unmarshal J data cfg)))"
  using LoadConfig_present [of "machine fs cfg" rules_json data J]
  by (simp add: machine_path machine_fields)

lemma machine_Save:
  "MarshalIndent J cfg = Inr data \<Longrightarrow>
   SaveConfig J (machine fs cfg) = (None, machine (fs(rules_json \<mapsto> data)) cfg)"
  using SaveConfig_ok [of "machine fs cfg" rules_json J data]
  by (simp add: machine_path machine_fields)

lemma getDefaultConfigPath_files [simp]:
  "getDefaultConfigPath (st\<lparr>files := fs\<rparr>) = getDefaultConfigPath st"
  by (simp add: getDefaultConfigPath_def)

lemma getDefaultConfigPath_config [simp]:
  "getDefaultConfigPath (st\<lparr>fm_Config := c\<rparr>) = getDefaultConfigPath st"
  by (simp add: getDefaultConfigPath_def)

lemma Import_source_missing:
  assumes "getDefaultConfigPath st = Inr dp" "files st dp = Some old"
    "\<not> fails st OpStat dp" "\<not> fails st OpRename dp" "\<not> fails st OpReadFile src"
    "files st src = None" "src \<noteq> dp @ ''.bak''"
  shows "ImportConfigFile J src st =
           (Some (Wrapped ''failed to read import file'' (NotExist src)),
            st\<lparr>files := ((files st)(dp := None))(dp @ ''.bak'' \<mapsto> old)\<rparr>)"
  using assms
  by (simp add: ImportConfigFile_def os_Stat_def os_Rename_def os_ReadFile_def)

lemma Import_normal:
  assumes "getDefaultConfigPath st = Inr dp"
    "\<not> fails st OpStat dp" "\<not> fails st OpRename dp" "\<not> fails st OpReadFile src"
    "\<not> fails st OpMkdirAll (filepath_Dir dp)" "\<not> fails st OpWriteFile dp"
    "\<not> fails st OpReadFile dp"
    "files st src = Some data" "src \<noteq> dp" "src \<noteq> dp @ ''.bak''"
  shows "ImportConfigFile J src st =
           (fst (Unmarshal J data (fm_Config st)),
            st\<lparr>files :=
                 (case files st dp of
                    None \<Rightarrow> files st
                  | Some old \<Rightarrow> ((files st)(dp := None))(dp @ ''.bak'' \<mapsto> old))(dp \<mapsto> data),
               fm_Config := snd (Unmarshal J data (fm_Config st))\<rparr>)"
proof (cases "files st dp")
  case None
  define st2 where "st2 = st\<lparr>files := (files st)(dp \<mapsto> data)\<rparr>"
  have l: "LoadConfig J st2 =
      (fst (Unmarshal J data (fm_Config st2)),
       st2\<lparr>fm_Config := snd (Unmarshal J data (fm_Config st2))\<rparr>)"
    using assms by (intro LoadConfig_present [of st2 dp data J]) (simp_all add: st2_def)
  have "ImportConfigFile J src st = LoadConfig J st2"
    using assms None
    by (simp add: ImportConfigFile_def os_Stat_def os_IsNotExist_def os_ReadFile_def
        os_MkdirAll_def os_WriteFile_def st2_def)
  with l None show ?thesis
    by (simp add: st2_def)
next
  case (Some old)
  define st1 where "st1 = st\<lparr>files := ((files st)(dp := None))(dp @ ''.bak'' \<mapsto> old)\<rparr>"
  define st2 where "st2 = st1\<lparr>files := (files st1)(dp \<mapsto> data)\<rparr>"
  have l: "LoadConfig J st2 =
      (fst (Unmarshal J data (fm_Config st2)),
       st2\<lparr>fm_Config := snd (Unmarshal J data (fm_Config st2))\<rparr>)"
    using assms by (intro LoadConfig_present [of st2 dp data J]) (simp_all add: st2_def st1_def)
  have "ImportConfigFile J src st = LoadConfig J st2"
    using assms Some
    by (simp add: ImportConfigFile_def os_Stat_def os_Rename_def os_ReadFile_def
        os_MkdirAll_def os_WriteFile_def st2_def st1_def)
  with l Some show ?thesis
    by (simp add: st2_def st1_def)
qed

lemma Import_success_shape:
  assumes "ImportConfigFile J src st = (None, st')" and "getDefaultConfigPath st = Inr dp"
  shows "\<exists>fs1 data.
           (files st dp = None \<and> fs1 = files st
            \<or> (\<exists>old. files st dp = Some old
                 \<and> fs1 = ((files st)(dp := None))(dp @ ''.bak'' \<mapsto> old)))
           \<and> fs1 src = Some data
           \<and> files st' = fs1(dp \<mapsto> data)"
proof -
  define backup where "backup =
     (case os_Stat st dp of
        None \<Rightarrow>
          (case os_Rename dp (dp @ ''.bak'') st of
             (Some err, st1) \<Rightarrow> (Some (Wrapped ''failed to create backup'' err), st1)
           | (None, st1) \<Rightarrow> (None, st1))
      | Some err \<Rightarrow> (if \<not> os_IsNotExist err then (Some err, st) else (None, st)))"
  obtain r st1 where b: "backup = (r, st1)"
    by (cases backup)
  have r: "r = None"
    using assms b by (auto simp: ImportConfigFile_def backup_def [symmetric] split: option.splits)
  have st1: "files st dp = None \<and> files st1 = files st
            \<or> (\<exists>old. files st dp = Some old
                 \<and> files st1 = ((files st)(dp := None))(dp @ ''.bak'' \<mapsto> old))"
    using b r
    by (auto simp: backup_def os_Stat_def os_Rename_def os_IsNotExist_def
             split: option.splits if_splits error.splits)
  from assms b r obtain data where d: "os_ReadFile st1 src = Inr data"
    by (cases "os_ReadFile st1 src")
       (auto simp: ImportConfigFile_def backup_def [symmetric])
  then have d': "files st1 src = Some data"
    by (auto simp: os_ReadFile_def split: if_splits option.splits)
  from assms b r d have m: "os_MkdirAll st1 (filepath_Dir dp) = None"
    by (cases "os_MkdirAll st1 (filepath_Dir dp)")
       (auto simp: ImportConfigFile_def backup_def [symmetric])
  from assms b r d m have w: "LoadConfig J (st1\<lparr>files := (files st1)(dp \<mapsto> data)\<rparr>) = (None, st')"
    by (auto simp: ImportConfigFile_def backup_def [symmetric] os_WriteFile_def
             split: if_splits)
  then have "files st' = (files st1)(dp \<mapsto> data)"
    using LoadConfig_files' [OF w] by simp
  with st1 d' show ?thesis
    by auto
qed

lemma bak_neq: "''/tmp/new.json'' \<noteq> rules_json @ ''.bak''" "''/tmp/new.json'' \<noteq> rules_json"
  "''/tmp/filters.json'' \<noteq> rules_json @ ''.bak''" "''/tmp/filters.json'' \<noteq> rules_json"
  by (simp_all add: rules_json_def)

text \<open>
  Claim C7. \<^verbatim>\<open>MoveFirewallRule\<close> and \<^verbatim>\<open>MovePortForwardingRule\<close> leave their list
  as it is when \<open>from = to\<close> or an index is outside \<open>[0, len)\<close>. Otherwise the list keeps
  its length, the rule that was at \<open>from\<close> is at \<open>to\<close>, and the other rules keep their
  order: the list without position \<open>to\<close> is the old list without position \<open>from\<close>,
  that is, the rules between the two positions move by one place towards \<open>from\<close> and
  the rest stay. The operation changes this one list of the document in memory and nothing
  else: the files are untouched (no save), and its result does not depend on them (no
  reload).
\<close>

theorem move_rule:
  "(from = to \<or> from < 0 \<or> int (length xs) \<le> from \<or> to < 0 \<or> int (length xs) \<le> to \<longrightarrow>
      move from to xs = xs)
   \<and> (0 \<le> from \<and> from < int (length xs) \<and> 0 \<le> to \<and> to < int (length xs) \<and> from \<noteq> to \<longrightarrow>
        length (move from to xs) = length xs
      \<and> move from to xs ! nat to = xs ! nat from
      \<and> remove_at (nat to) (move from to xs) = remove_at (nat from) xs
      \<and> (\<forall>k < length xs.
            move from to xs ! k =
              (if k = nat to then xs ! nat from
               else if from < to \<and> nat from \<le> k \<and> k < nat to then xs ! (k + 1)
               else if to < from \<and> nat to < k \<and> k \<le> nat from then xs ! (k - 1)
               else xs ! k)))
   \<and> MoveFirewallRule from to st =
       st\<lparr>fm_Config := \<lparr>FirewallRules = move from to (FirewallRules (fm_Config st)),
                         PortForwardingRules = PortForwardingRules (fm_Config st)\<rparr>\<rparr>
   \<and> MovePortForwardingRule from to st =
       st\<lparr>fm_Config := \<lparr>FirewallRules = FirewallRules (fm_Config st),
                         PortForwardingRules =
                           move from to (PortForwardingRules (fm_Config st))\<rparr>\<rparr>
   \<and> files (MoveFirewallRule from to st) = files st
   \<and> files (MovePortForwardingRule from to st) = files st
   \<and> MoveFirewallRule from to (st\<lparr>files := fs\<rparr>) = (MoveFirewallRule from to st)\<lparr>files := fs\<rparr>
   \<and> MovePortForwardingRule from to (st\<lparr>files := fs\<rparr>) =
       (MovePortForwardingRule from to st)\<lparr>files := fs\<rparr>"
proof (intro conjI impI allI)
  assume "from = to \<or> from < 0 \<or> int (length xs) \<le> from \<or> to < 0 \<or> int (length xs) \<le> to"
  then show "move from to xs = xs"
    by (auto simp: move_def)
next
  assume a: "0 \<le> from \<and> from < int (length xs) \<and> 0 \<le> to \<and> to < int (length xs) \<and> from \<noteq> to"
  define f where "f = nat from"
  define t where "t = nat to"
  define tmp where "tmp = remove_at f xs"
  from a have f: "f < length xs" and t: "t < length xs" and ft: "f \<noteq> t"
    by (auto simp: f_def t_def)
  have m: "move from to xs = take t tmp @ [xs ! f] @ drop t tmp"
    using a move_in_range [of "from" xs to] by (simp add: f_def t_def tmp_def)
  have lt: "length tmp = length xs - 1"
    using f by (simp add: tmp_def length_remove_at)
  with t have tl: "t \<le> length tmp"
    by simp
  show "length (move from to xs) = length xs"
    using m lt tl f by simp
  show "move from to xs ! nat to = xs ! nat from"
    using m tl by (simp add: nth_append t_def [symmetric] f_def [symmetric])
  show "remove_at (nat to) (move from to xs) = remove_at (nat from) xs"
    using m tl remove_at_insert [of t tmp "xs ! f"]
    by (simp add: t_def [symmetric] f_def [symmetric] tmp_def)
  fix k
  assume k: "k < length xs"
  then have kl: "k \<le> length tmp"
    using lt by simp
  have ftlt: "from < to \<longleftrightarrow> f < t" "to < from \<longleftrightarrow> t < f"
    using a by (auto simp: f_def t_def)
  have mk: "move from to xs ! k = (if k < t then tmp ! k else if k = t then xs ! f else tmp ! (k - 1))"
    using m insert_nth [OF tl kl, of "xs ! f"] by simp
  have tmp1: "k < t \<Longrightarrow> tmp ! k = (if k < f then xs ! k else xs ! (k + 1))"
    using remove_at_nth [of f xs k] f t by (simp add: tmp_def)
  have tmp2: "t < k \<Longrightarrow> tmp ! (k - 1) = (if k - 1 < f then xs ! (k - 1) else xs ! k)"
    using remove_at_nth [of f xs "k - 1"] f k by (simp add: tmp_def)
  show "move from to xs ! k =
              (if k = nat to then xs ! nat from
               else if from < to \<and> nat from \<le> k \<and> k < nat to then xs ! (k + 1)
               else if to < from \<and> nat to < k \<and> k \<le> nat from then xs ! (k - 1)
               else xs ! k)"
    unfolding ftlt f_def [symmetric] t_def [symmetric]
  proof (cases "k < t")
    case True
    then show "move from to xs ! k =
        (if k = t then xs ! f
         else if f < t \<and> f \<le> k \<and> k < t then xs ! (k + 1)
         else if t < f \<and> t < k \<and> k \<le> f then xs ! (k - 1)
         else xs ! k)"
      using mk tmp1 by auto
  next
    case False
    then show "move from to xs ! k =
        (if k = t then xs ! f
         else if f < t \<and> f \<le> k \<and> k < t then xs ! (k + 1)
         else if t < f \<and> t < k \<and> k \<le> f then xs ! (k - 1)
         else xs ! k)"
      using mk tmp2 ft by (cases "k = t") (auto simp: not_less)
  qed
next
  show "MoveFirewallRule from to st =
       st\<lparr>fm_Config := \<lparr>FirewallRules = move from to (FirewallRules (fm_Config st)),
                         PortForwardingRules = PortForwardingRules (fm_Config st)\<rparr>\<rparr>"
    by (simp add: MoveFirewallRule_def)
next
  show "MovePortForwardingRule from to st =
       st\<lparr>fm_Config := \<lparr>FirewallRules = FirewallRules (fm_Config st),
                         PortForwardingRules =
                           move from to (PortForwardingRules (fm_Config st))\<rparr>\<rparr>"
    by (simp add: MovePortForwardingRule_def)
next
  show "files (MoveFirewallRule from to st) = files st"
    by (simp add: MoveFirewallRule_def)
next
  show "files (MovePortForwardingRule from to st) = files st"
    by (simp add: MovePortForwardingRule_def)
next
  show "MoveFirewallRule from to (st\<lparr>files := fs\<rparr>) = (MoveFirewallRule from to st)\<lparr>files := fs\<rparr>"
    by (simp add: MoveFirewallRule_def)
next
  show "MovePortForwardingRule from to (st\<lparr>files := fs\<rparr>) =
       (MovePortForwardingRule from to st)\<lparr>files := fs\<rparr>"
    by (simp add: MovePortForwardingRule_def)
qed

theorem move_rule_witness:
  "length (move 0 2 [''a'', ''b'', ''c'', ''d'']) = 4
   \<and> move 0 2 [''a'', ''b'', ''c'', ''d''] ! 2 = ''a''
   \<and> remove_at 2 (move 0 2 [''a'', ''b'', ''c'', ''d'']) = [''b'', ''c'', ''d'']
   \<and> move 0 2 [''a'', ''b'', ''c'', ''d''] ! 0 = ''b''
   \<and> move 3 3 [''a'', ''b'', ''c'', ''d''] = [''a'', ''b'', ''c'', ''d'']
   \<and> move 4 0 [''a'', ''b'', ''c'', ''d''] = [''a'', ''b'', ''c'', ''d'']
   \<and> move 1 (- 1) [''a'', ''b'', ''c'', ''d''] = [''a'', ''b'', ''c'', ''d'']"
proof -
  let ?xs = "[''a'', ''b'', ''c'', ''d'']"
  have h: "(0::int) \<le> 0 \<and> 0 < int (length ?xs) \<and> (0::int) \<le> 2 \<and> 2 < int (length ?xs)
      \<and> (0::int) \<noteq> 2"
    by simp
  from move_rule [of 0 2 ?xs] h
  have a: "length (move 0 2 ?xs) = length ?xs
      \<and> move 0 2 ?xs ! nat 2 = ?xs ! nat 0
      \<and> remove_at (nat 2) (move 0 2 ?xs) = remove_at (nat 0) ?xs
      \<and> (\<forall>k < length ?xs.
            move 0 2 ?xs ! k =
              (if k = nat 2 then ?xs ! nat 0
               else if (0::int) < 2 \<and> nat 0 \<le> k \<and> k < nat 2 then ?xs ! (k + 1)
               else if (2::int) < 0 \<and> nat 2 < k \<and> k \<le> nat 0 then ?xs ! (k - 1)
               else ?xs ! k))"
    by blast
  then have a4: "move 0 2 ?xs ! 0 = ''b''"
    by simp
  from move_rule [of 3 3 ?xs] have b: "move 3 3 ?xs = ?xs"
    by simp
  from move_rule [of 4 0 ?xs] have c: "move 4 0 ?xs = ?xs"
    by simp
  from move_rule [of 1 "- 1" ?xs] have d: "move 1 (- 1) ?xs = ?xs"
    by simp
  from a a4 b c d show ?thesis
    by (simp add: remove_at_def)
qed

text \<open>
  Claim C9. When the default document file is absent, \<^verbatim>\<open>LoadConfig\<close> puts the empty
  document in memory and returns no error. When the file is there and
  \<^verbatim>\<open>json.Unmarshal\<close> returns an error for its bytes, \<^verbatim>\<open>LoadConfig\<close> returns that
  error.
\<close>

theorem LoadConfig_missing_or_malformed:
  "(getDefaultConfigPath st = Inr path \<and> \<not> fails st OpReadFile path \<and> files st path = None \<longrightarrow>
      LoadConfig J st =
        (None, st\<lparr>fm_Config := \<lparr>FirewallRules = [], PortForwardingRules = []\<rparr>\<rparr>))
   \<and> (getDefaultConfigPath st = Inr path \<and> \<not> fails st OpReadFile path
        \<and> files st path = Some data \<and> fst (Unmarshal J data (fm_Config st)) = Some err \<longrightarrow>
      fst (LoadConfig J st) = Some err)"
  using LoadConfig_missing [of st path J] LoadConfig_present [of st path data J]
  by simp

theorem LoadConfig_missing_or_malformed_witness:
  "LoadConfig table_json (machine Map.empty example_doc) = (None, machine Map.empty empty_doc)
   \<and> fst (LoadConfig table_json (machine [rules_json \<mapsto> garbage_text] example_doc))
       = Some (JSONError ''invalid character'')"
proof -
  have "getDefaultConfigPath (machine Map.empty example_doc) = Inr rules_json
      \<and> \<not> fails (machine Map.empty example_doc) OpReadFile rules_json
      \<and> files (machine Map.empty example_doc) rules_json = None"
    by (simp add: machine_path machine_fields)
  with LoadConfig_missing_or_malformed
    [of "machine Map.empty example_doc" rules_json table_json]
  have a: "LoadConfig table_json (machine Map.empty example_doc) = (None, machine Map.empty empty_doc)"
    by (simp add: machine_fields empty_doc_def)
  have "getDefaultConfigPath (machine [rules_json \<mapsto> garbage_text] example_doc) = Inr rules_json
      \<and> \<not> fails (machine [rules_json \<mapsto> garbage_text] example_doc) OpReadFile rules_json
      \<and> files (machine [rules_json \<mapsto> garbage_text] example_doc) rules_json = Some garbage_text
      \<and> fst (Unmarshal table_json garbage_text
                (fm_Config (machine [rules_json \<mapsto> garbage_text] example_doc)))
          = Some (JSONError ''invalid character'')"
    by (simp add: machine_path machine_fields Unmarshal_garbage)
  with LoadConfig_missing_or_malformed
    [of "machine [rules_json \<mapsto> garbage_text] example_doc" rules_json table_json garbage_text
        "JSONError ''invalid character''"]
  have b: "fst (LoadConfig table_json (machine [rules_json \<mapsto> garbage_text] example_doc))
       = Some (JSONError ''invalid character'')"
    by blast
  from a b show ?thesis by blast
qed

text \<open>
  Claim C8. Update and Delete, for filter rules and for port forwarding rules, reload
  first; if the reload fails they return its error. With \<open>st1\<close> the state after the
  reload: an index outside \<open>[0, len)\<close> of the reloaded list gives the invalid index
  error with the files as they were; an index inside it makes Update save the document
  with the rule at the index replaced, and Delete save the document without the rule at
  the index, a list one shorter in which every rule after the index has moved down by one.
  A save that meets no failure writes the encoding of the document to the default file.
\<close>

theorem update_delete_rule:
  "(LoadConfig J st = (Some err, st1) \<longrightarrow>
      UpdateFirewallRule J index rule st = (Some err, st1)
      \<and> DeleteFirewallRule J index st = (Some err, st1)
      \<and> UpdatePortForwardingRule J index prule st = (Some err, st1)
      \<and> DeletePortForwardingRule J index st = (Some err, st1)
      \<and> files st1 = files st)
   \<and> (LoadConfig J st = (None, st1)
        \<and> (index < 0 \<or> int (length (FirewallRules (fm_Config st1))) \<le> index) \<longrightarrow>
      UpdateFirewallRule J index rule st = (Some InvalidRuleIndex, st1)
      \<and> DeleteFirewallRule J index st = (Some InvalidRuleIndex, st1)
      \<and> files st1 = files st)
   \<and> (LoadConfig J st = (None, st1)
        \<and> (index < 0 \<or> int (length (PortForwardingRules (fm_Config st1))) \<le> index) \<longrightarrow>
      UpdatePortForwardingRule J index prule st = (Some InvalidRuleIndex, st1)
      \<and> DeletePortForwardingRule J index st = (Some InvalidRuleIndex, st1)
      \<and> files st1 = files st)
   \<and> (LoadConfig J st = (None, st1)
        \<and> 0 \<le> index \<and> index < int (length (FirewallRules (fm_Config st1))) \<longrightarrow>
      UpdateFirewallRule J index rule st =
        SaveConfig J (st1\<lparr>fm_Config := (fm_Config st1)
          \<lparr>FirewallRules := (FirewallRules (fm_Config st1))[nat index := rule]\<rparr>\<rparr>)
      \<and> DeleteFirewallRule J index st =
        SaveConfig J (st1\<lparr>fm_Config := (fm_Config st1)
          \<lparr>FirewallRules := remove_at (nat index) (FirewallRules (fm_Config st1))\<rparr>\<rparr>)
      \<and> (FirewallRules (fm_Config st1))[nat index := rule] ! nat index = rule
      \<and> length (remove_at (nat index) (FirewallRules (fm_Config st1)))
          = length (FirewallRules (fm_Config st1)) - 1
      \<and> (\<forall>k < length (FirewallRules (fm_Config st1)) - 1.
            remove_at (nat index) (FirewallRules (fm_Config st1)) ! k =
              (if k < nat index then FirewallRules (fm_Config st1) ! k
               else FirewallRules (fm_Config st1) ! (k + 1))))
   \<and> (LoadConfig J st = (None, st1)
        \<and> 0 \<le> index \<and> index < int (length (PortForwardingRules (fm_Config st1))) \<longrightarrow>
      UpdatePortForwardingRule J index prule st =
        SaveConfig J (st1\<lparr>fm_Config := (fm_Config st1)
          \<lparr>PortForwardingRules := (PortForwardingRules (fm_Config st1))[nat index := prule]\<rparr>\<rparr>)
      \<and> DeletePortForwardingRule J index st =
        SaveConfig J (st1\<lparr>fm_Config := (fm_Config st1)
          \<lparr>PortForwardingRules :=
             remove_at (nat index) (PortForwardingRules (fm_Config st1))\<rparr>\<rparr>)
      \<and> (PortForwardingRules (fm_Config st1))[nat index := prule] ! nat index = prule
      \<and> length (remove_at (nat index) (PortForwardingRules (fm_Config st1)))
          = length (PortForwardingRules (fm_Config st1)) - 1
      \<and> (\<forall>k < length (PortForwardingRules (fm_Config st1)) - 1.
            remove_at (nat index) (PortForwardingRules (fm_Config st1)) ! k =
              (if k < nat index then PortForwardingRules (fm_Config st1) ! k
               else PortForwardingRules (fm_Config st1) ! (k + 1))))
   \<and> (getDefaultConfigPath st2 = Inr path \<and> \<not> fails st2 OpMkdirAll (filepath_Dir path)
        \<and> \<not> fails st2 OpWriteFile path \<and> MarshalIndent J (fm_Config st2) = Inr data \<longrightarrow>
      SaveConfig J st2 = (None, st2\<lparr>files := (files st2)(path \<mapsto> data)\<rparr>))"
proof (intro conjI impI allI)
  assume a: "LoadConfig J st = (Some err, st1)"
  then show "UpdateFirewallRule J index rule st = (Some err, st1)"
    by (simp add: UpdateFirewallRule_def)
  from a show "DeleteFirewallRule J index st = (Some err, st1)"
    by (simp add: DeleteFirewallRule_def)
  from a show "UpdatePortForwardingRule J index prule st = (Some err, st1)"
    by (simp add: UpdatePortForwardingRule_def)
  from a show "DeletePortForwardingRule J index st = (Some err, st1)"
    by (simp add: DeletePortForwardingRule_def)
  from a show "files st1 = files st"
    by (rule LoadConfig_files')
next
  assume a: "LoadConfig J st = (None, st1)
        \<and> (index < 0 \<or> int (length (FirewallRules (fm_Config st1))) \<le> index)"
  then show "UpdateFirewallRule J index rule st = (Some InvalidRuleIndex, st1)"
    by (auto simp: UpdateFirewallRule_def)
  from a show "DeleteFirewallRule J index st = (Some InvalidRuleIndex, st1)"
    by (auto simp: DeleteFirewallRule_def)
  from a show "files st1 = files st"
    by (blast intro: LoadConfig_files')
next
  assume a: "LoadConfig J st = (None, st1)
        \<and> (index < 0 \<or> int (length (PortForwardingRules (fm_Config st1))) \<le> index)"
  then show "UpdatePortForwardingRule J index prule st = (Some InvalidRuleIndex, st1)"
    by (auto simp: UpdatePortForwardingRule_def)
  from a show "DeletePortForwardingRule J index st = (Some InvalidRuleIndex, st1)"
    by (auto simp: DeletePortForwardingRule_def)
  from a show "files st1 = files st"
    by (blast intro: LoadConfig_files')
next
  assume a: "LoadConfig J st = (None, st1)
        \<and> 0 \<le> index \<and> index < int (length (FirewallRules (fm_Config st1)))"
  then have i: "nat index < length (FirewallRules (fm_Config st1))"
    by auto
  from a show "UpdateFirewallRule J index rule st =
        SaveConfig J (st1\<lparr>fm_Config := (fm_Config st1)
          \<lparr>FirewallRules := (FirewallRules (fm_Config st1))[nat index := rule]\<rparr>\<rparr>)"
    by (simp add: UpdateFirewallRule_def)
  from a show "DeleteFirewallRule J index st =
        SaveConfig J (st1\<lparr>fm_Config := (fm_Config st1)
          \<lparr>FirewallRules := remove_at (nat index) (FirewallRules (fm_Config st1))\<rparr>\<rparr>)"
    by (simp add: DeleteFirewallRule_def)
  from i show "(FirewallRules (fm_Config st1))[nat index := rule] ! nat index = rule"
    by simp
  from i show "length (remove_at (nat index) (FirewallRules (fm_Config st1)))
          = length (FirewallRules (fm_Config st1)) - 1"
    by (rule length_remove_at)
  fix k
  assume "k < length (FirewallRules (fm_Config st1)) - 1"
  with i show "remove_at (nat index) (FirewallRules (fm_Config st1)) ! k =
              (if k < nat index then FirewallRules (fm_Config st1) ! k
               else FirewallRules (fm_Config st1) ! (k + 1))"
    by (rule remove_at_nth)
next
  assume a: "LoadConfig J st = (None, st1)
        \<and> 0 \<le> index \<and> index < int (length (PortForwardingRules (fm_Config st1)))"
  then have i: "nat index < length (PortForwardingRules (fm_Config st1))"
    by auto
  from a show "UpdatePortForwardingRule J index prule st =
        SaveConfig J (st1\<lparr>fm_Config := (fm_Config st1)
          \<lparr>PortForwardingRules := (PortForwardingRules (fm_Config st1))[nat index := prule]\<rparr>\<rparr>)"
    by (simp add: UpdatePortForwardingRule_def)
  from a show "DeletePortForwardingRule J index st =
        SaveConfig J (st1\<lparr>fm_Config := (fm_Config st1)
          \<lparr>PortForwardingRules :=
             remove_at (nat index) (PortForwardingRules (fm_Config st1))\<rparr>\<rparr>)"
    by (simp add: DeletePortForwardingRule_def)
  from i show "(PortForwardingRules (fm_Config st1))[nat index := prule] ! nat index = prule"
    by simp
  from i show "length (remove_at (nat index) (PortForwardingRules (fm_Config st1)))
          = length (PortForwardingRules (fm_Config st1)) - 1"
    by (rule length_remove_at)
  fix k
  assume "k < length (PortForwardingRules (fm_Config st1)) - 1"
  with i show "remove_at (nat index) (PortForwardingRules (fm_Config st1)) ! k =
              (if k < nat index then PortForwardingRules (fm_Config st1) ! k
               else PortForwardingRules (fm_Config st1) ! (k + 1))"
    by (rule remove_at_nth)
next
  assume "getDefaultConfigPath st2 = Inr path \<and> \<not> fails st2 OpMkdirAll (filepath_Dir path)
        \<and> \<not> fails st2 OpWriteFile path \<and> MarshalIndent J (fm_Config st2) = Inr data"
  then show "SaveConfig J st2 = (None, st2\<lparr>files := (files st2)(path \<mapsto> data)\<rparr>)"
    by (simp add: SaveConfig_ok)
qed

theorem update_delete_rule_witness:
  "UpdateFirewallRule table_json 0 web_rule (machine [rules_json \<mapsto> garbage_text] empty_doc)
     = (Some (JSONError ''invalid character''), machine [rules_json \<mapsto> garbage_text] empty_doc)
   \<and> DeleteFirewallRule table_json 1 (machine [rules_json \<mapsto> bad_text] empty_doc)
     = (Some InvalidRuleIndex, machine [rules_json \<mapsto> bad_text] coerced_doc)
   \<and> UpdatePortForwardingRule table_json (- 1) fwd_rule (machine [rules_json \<mapsto> bad_text] empty_doc)
     = (Some InvalidRuleIndex, machine [rules_json \<mapsto> bad_text] coerced_doc)
   \<and> DeleteFirewallRule table_json 0 (machine [rules_json \<mapsto> bad_text] example_doc)
     = (None, machine [rules_json \<mapsto> empty_text] empty_doc)
   \<and> UpdatePortForwardingRule table_json 0 fwd_rule (machine [rules_json \<mapsto> example_text] empty_doc)
     = (None, machine [rules_json \<mapsto> example_text] example_doc)"
proof -
  have l1: "LoadConfig table_json (machine [rules_json \<mapsto> garbage_text] empty_doc)
      = (Some (JSONError ''invalid character''), machine [rules_json \<mapsto> garbage_text] empty_doc)"
    by (simp add: machine_Load Unmarshal_garbage)
  have l2: "LoadConfig table_json (machine [rules_json \<mapsto> bad_text] cfg)
      = (None, machine [rules_json \<mapsto> bad_text] coerced_doc)" for cfg
    by (simp add: machine_Load table_Unmarshal_bad)
  have l3: "LoadConfig table_json (machine [rules_json \<mapsto> example_text] empty_doc)
      = (None, machine [rules_json \<mapsto> example_text] example_doc)"
    by (simp add: machine_Load table_Unmarshal_example)
  have c1: "UpdateFirewallRule table_json 0 web_rule (machine [rules_json \<mapsto> garbage_text] empty_doc)
     = (Some (JSONError ''invalid character''), machine [rules_json \<mapsto> garbage_text] empty_doc)"
    using l1 update_delete_rule
      [where J = table_json and st = "machine [rules_json \<mapsto> garbage_text] empty_doc"
         and err = "JSONError ''invalid character''"
         and ?st1.0 = "machine [rules_json \<mapsto> garbage_text] empty_doc"
         and index = 0 and rule = web_rule]
    by blast
  have c2: "DeleteFirewallRule table_json 1 (machine [rules_json \<mapsto> bad_text] empty_doc)
     = (Some InvalidRuleIndex, machine [rules_json \<mapsto> bad_text] coerced_doc)"
    using l2 [of empty_doc] update_delete_rule
      [where J = table_json and st = "machine [rules_json \<mapsto> bad_text] empty_doc"
         and ?st1.0 = "machine [rules_json \<mapsto> bad_text] coerced_doc" and index = 1]
    by (simp add: machine_fields coerced_doc_def)
  have c3: "UpdatePortForwardingRule table_json (- 1) fwd_rule
       (machine [rules_json \<mapsto> bad_text] empty_doc)
     = (Some InvalidRuleIndex, machine [rules_json \<mapsto> bad_text] coerced_doc)"
    using l2 [of empty_doc] update_delete_rule
      [where J = table_json and st = "machine [rules_json \<mapsto> bad_text] empty_doc"
         and ?st1.0 = "machine [rules_json \<mapsto> bad_text] coerced_doc" and index = "- 1"
         and prule = fwd_rule]
    by (simp add: machine_fields coerced_doc_def)
  have "DeleteFirewallRule table_json 0 (machine [rules_json \<mapsto> bad_text] example_doc)
     = SaveConfig table_json
         ((machine [rules_json \<mapsto> bad_text] coerced_doc)
            \<lparr>fm_Config := (fm_Config (machine [rules_json \<mapsto> bad_text] coerced_doc))
               \<lparr>FirewallRules := remove_at (nat 0)
                  (FirewallRules (fm_Config (machine [rules_json \<mapsto> bad_text] coerced_doc)))\<rparr>\<rparr>)"
    using l2 [of example_doc] update_delete_rule
      [where J = table_json and st = "machine [rules_json \<mapsto> bad_text] example_doc"
         and ?st1.0 = "machine [rules_json \<mapsto> bad_text] coerced_doc" and index = 0]
    by (simp add: machine_fields coerced_doc_def)
  also have "\<dots> = SaveConfig table_json (machine [rules_json \<mapsto> bad_text] empty_doc)"
    by (simp add: machine_fields coerced_doc_def remove_at_def empty_doc_def)
  also have "\<dots> = (None, machine [rules_json \<mapsto> empty_text] empty_doc)"
    by (simp add: machine_Save table_Marshal_empty)
  finally have c4: "DeleteFirewallRule table_json 0 (machine [rules_json \<mapsto> bad_text] example_doc)
     = (None, machine [rules_json \<mapsto> empty_text] empty_doc)" .
  have "UpdatePortForwardingRule table_json 0 fwd_rule
          (machine [rules_json \<mapsto> example_text] empty_doc)
     = SaveConfig table_json
         ((machine [rules_json \<mapsto> example_text] example_doc)
            \<lparr>fm_Config := (fm_Config (machine [rules_json \<mapsto> example_text] example_doc))
               \<lparr>PortForwardingRules :=
                  (PortForwardingRules (fm_Config (machine [rules_json \<mapsto> example_text] example_doc)))
                    [nat 0 := fwd_rule]\<rparr>\<rparr>)"
    using l3 update_delete_rule
      [where J = table_json and st = "machine [rules_json \<mapsto> example_text] empty_doc"
         and ?st1.0 = "machine [rules_json \<mapsto> example_text] example_doc" and index = 0
         and prule = fwd_rule]
    by (simp add: machine_fields example_doc_def)
  also have "\<dots> = SaveConfig table_json (machine [rules_json \<mapsto> example_text] example_doc)"
    by (simp add: machine_fields example_doc_def)
  also have "\<dots> = (None, machine [rules_json \<mapsto> example_text] example_doc)"
    by (simp add: machine_Save table_Marshal_example)
  finally have c5: "UpdatePortForwardingRule table_json 0 fwd_rule
          (machine [rules_json \<mapsto> example_text] empty_doc)
     = (None, machine [rules_json \<mapsto> example_text] example_doc)" .
  from c1 c2 c3 c4 c5 show ?thesis
    by blast
qed




text \<open>
  Claim C3 says that the default file is renamed to the backup only if the import of the
  source will proceed. The rename comes first: with a default file and no source file,
  \<^verbatim>\<open>ImportConfigFile\<close> fails to read the source after it has moved the default file
  away, and leaves no default file.
\<close>

theorem import_renames_before_reading:
  "fst (ImportConfigFile table_json ''/tmp/new.json''
          (machine [rules_json \<mapsto> empty_text] empty_doc))
     = Some (Wrapped ''failed to read import file'' (NotExist ''/tmp/new.json''))
   \<and> files (snd (ImportConfigFile table_json ''/tmp/new.json''
          (machine [rules_json \<mapsto> empty_text] empty_doc))) rules_json = None
   \<and> files (snd (ImportConfigFile table_json ''/tmp/new.json''
          (machine [rules_json \<mapsto> empty_text] empty_doc))) (rules_json @ ''.bak'')
     = Some empty_text"
  using Import_source_missing
    [of "machine [rules_json \<mapsto> empty_text] empty_doc" rules_json empty_text
        "''/tmp/new.json''" table_json]
  by (simp add: machine_path machine_fields bak_neq)

text \<open>
  Claim C3, amended. When a default file exists it is renamed to the backup before the
  source is read, whether or not the import then proceeds: if the source is missing the
  call fails with the default file gone and its bytes in the backup. After a successful
  import the default file and the source hold the same bytes, which are the bytes the
  source had before the call unless the source is the backup path itself, and the backup
  holds the bytes the default file had before. The bytes are written as they are: when no
  file operation fails, the files after the call do not depend on what
  \<^verbatim>\<open>json.Unmarshal\<close> makes of the bytes, and its error is the result of the call.
\<close>

theorem import_backup:
  "(getDefaultConfigPath st = Inr dp \<and> files st dp = Some old
      \<and> \<not> fails st OpStat dp \<and> \<not> fails st OpRename dp \<and> \<not> fails st OpReadFile src
      \<and> files st src = None \<and> src \<noteq> dp @ ''.bak'' \<longrightarrow>
      ImportConfigFile J src st =
        (Some (Wrapped ''failed to read import file'' (NotExist src)),
         st\<lparr>files := ((files st)(dp := None))(dp @ ''.bak'' \<mapsto> old)\<rparr>))
   \<and> (getDefaultConfigPath st = Inr dp \<and> ImportConfigFile J src st = (None, st') \<longrightarrow>
        (\<exists>data. files st' dp = Some data \<and> files st' src = Some data
           \<and> (src = dp @ ''.bak'' \<or> files st src = Some data))
        \<and> (files st dp = None \<or> files st' (dp @ ''.bak'') = files st dp))
   \<and> (getDefaultConfigPath st = Inr dp
        \<and> \<not> fails st OpStat dp \<and> \<not> fails st OpRename dp \<and> \<not> fails st OpReadFile src
        \<and> \<not> fails st OpMkdirAll (filepath_Dir dp) \<and> \<not> fails st OpWriteFile dp
        \<and> \<not> fails st OpReadFile dp
        \<and> files st src = Some data \<and> src \<noteq> dp \<and> src \<noteq> dp @ ''.bak'' \<longrightarrow>
      ImportConfigFile J src st =
        (fst (Unmarshal J data (fm_Config st)),
         st\<lparr>files :=
              (case files st dp of
                 None \<Rightarrow> files st
               | Some old \<Rightarrow> ((files st)(dp := None))(dp @ ''.bak'' \<mapsto> old))(dp \<mapsto> data),
            fm_Config := snd (Unmarshal J data (fm_Config st))\<rparr>))"
proof (intro conjI impI)
  assume "getDefaultConfigPath st = Inr dp \<and> files st dp = Some old
      \<and> \<not> fails st OpStat dp \<and> \<not> fails st OpRename dp \<and> \<not> fails st OpReadFile src
      \<and> files st src = None \<and> src \<noteq> dp @ ''.bak''"
  then show "ImportConfigFile J src st =
        (Some (Wrapped ''failed to read import file'' (NotExist src)),
         st\<lparr>files := ((files st)(dp := None))(dp @ ''.bak'' \<mapsto> old)\<rparr>)"
    by (simp add: Import_source_missing)
next
  assume a: "getDefaultConfigPath st = Inr dp \<and> ImportConfigFile J src st = (None, st')"
  then obtain fs1 data where
    fs1: "files st dp = None \<and> fs1 = files st
            \<or> (\<exists>old. files st dp = Some old
                 \<and> fs1 = ((files st)(dp := None))(dp @ ''.bak'' \<mapsto> old))"
    and src: "fs1 src = Some data" and st': "files st' = fs1(dp \<mapsto> data)"
    using Import_success_shape [of J src st st' dp] by blast
  have 1: "files st' dp = Some data"
    using st' by simp
  have 2: "files st' src = Some data"
    using st' src by simp
  have 3: "src = dp @ ''.bak'' \<or> files st src = Some data"
    using fs1 src by (auto split: if_splits)
  from 1 2 3 show "\<exists>data. files st' dp = Some data \<and> files st' src = Some data
           \<and> (src = dp @ ''.bak'' \<or> files st src = Some data)"
    by blast
  show "files st dp = None \<or> files st' (dp @ ''.bak'') = files st dp"
    using fs1 st' by auto
next
  assume "getDefaultConfigPath st = Inr dp
        \<and> \<not> fails st OpStat dp \<and> \<not> fails st OpRename dp \<and> \<not> fails st OpReadFile src
        \<and> \<not> fails st OpMkdirAll (filepath_Dir dp) \<and> \<not> fails st OpWriteFile dp
        \<and> \<not> fails st OpReadFile dp
        \<and> files st src = Some data \<and> src \<noteq> dp \<and> src \<noteq> dp @ ''.bak''"
  then show "ImportConfigFile J src st =
        (fst (Unmarshal J data (fm_Config st)),
         st\<lparr>files :=
              (case files st dp of
                 None \<Rightarrow> files st
               | Some old \<Rightarrow> ((files st)(dp := None))(dp @ ''.bak'' \<mapsto> old))(dp \<mapsto> data),
            fm_Config := snd (Unmarshal J data (fm_Config st))\<rparr>)"
    by (simp add: Import_normal)
qed

theorem import_backup_witness:
  "fst (ImportConfigFile table_json ''/tmp/new.json''
          (machine [rules_json \<mapsto> empty_text] empty_doc))
     = Some (Wrapped ''failed to read import file'' (NotExist ''/tmp/new.json''))
   \<and> ImportConfigFile table_json ''/tmp/new.json''
        (machine [rules_json \<mapsto> empty_text, ''/tmp/new.json'' \<mapsto> example_text] empty_doc)
     = (None,
        machine [rules_json \<mapsto> example_text, rules_json @ ''.bak'' \<mapsto> empty_text,
                 ''/tmp/new.json'' \<mapsto> example_text] example_doc)
   \<and> ImportConfigFile table_json ''/tmp/new.json''
        (machine [rules_json \<mapsto> empty_text, ''/tmp/new.json'' \<mapsto> garbage_text] empty_doc)
     = (Some (JSONError ''invalid character''),
        machine [rules_json \<mapsto> garbage_text, rules_json @ ''.bak'' \<mapsto> empty_text,
                 ''/tmp/new.json'' \<mapsto> garbage_text] empty_doc)"
proof -
  let ?st0 = "machine [rules_json \<mapsto> empty_text] empty_doc"
  let ?st1 = "machine [rules_json \<mapsto> empty_text, ''/tmp/new.json'' \<mapsto> example_text] empty_doc"
  let ?st2 = "machine [rules_json \<mapsto> empty_text, ''/tmp/new.json'' \<mapsto> garbage_text] empty_doc"
  have "getDefaultConfigPath ?st0 = Inr rules_json \<and> files ?st0 rules_json = Some empty_text
      \<and> \<not> fails ?st0 OpStat rules_json \<and> \<not> fails ?st0 OpRename rules_json
      \<and> \<not> fails ?st0 OpReadFile ''/tmp/new.json''
      \<and> files ?st0 ''/tmp/new.json'' = None \<and> ''/tmp/new.json'' \<noteq> rules_json @ ''.bak''"
    by (simp add: machine_path machine_fields bak_neq)
  with import_backup [where st = ?st0 and dp = rules_json and old = empty_text
      and src = "''/tmp/new.json''" and J = table_json]
  have a: "fst (ImportConfigFile table_json ''/tmp/new.json'' ?st0)
     = Some (Wrapped ''failed to read import file'' (NotExist ''/tmp/new.json''))"
    by simp
  have "getDefaultConfigPath ?st1 = Inr rules_json
        \<and> \<not> fails ?st1 OpStat rules_json \<and> \<not> fails ?st1 OpRename rules_json
        \<and> \<not> fails ?st1 OpReadFile ''/tmp/new.json''
        \<and> \<not> fails ?st1 OpMkdirAll (filepath_Dir rules_json) \<and> \<not> fails ?st1 OpWriteFile rules_json
        \<and> \<not> fails ?st1 OpReadFile rules_json
        \<and> files ?st1 ''/tmp/new.json'' = Some example_text \<and> ''/tmp/new.json'' \<noteq> rules_json
        \<and> ''/tmp/new.json'' \<noteq> rules_json @ ''.bak''"
    by (simp add: machine_path machine_fields bak_neq)
  with import_backup [where st = ?st1 and dp = rules_json and data = example_text
      and src = "''/tmp/new.json''" and J = table_json]
  have "ImportConfigFile table_json ''/tmp/new.json'' ?st1 =
        (fst (Unmarshal table_json example_text (fm_Config ?st1)),
         ?st1\<lparr>files :=
              (case files ?st1 rules_json of
                 None \<Rightarrow> files ?st1
               | Some old \<Rightarrow> ((files ?st1)(rules_json := None))(rules_json @ ''.bak'' \<mapsto> old))
                (rules_json \<mapsto> example_text),
            fm_Config := snd (Unmarshal table_json example_text (fm_Config ?st1))\<rparr>)"
    by blast
  also have "\<dots> = (None,
        machine [rules_json \<mapsto> example_text, rules_json @ ''.bak'' \<mapsto> empty_text,
                 ''/tmp/new.json'' \<mapsto> example_text] example_doc)"
    by (auto simp: machine_def table_Unmarshal_example bak_neq bak_neq [symmetric] fun_eq_iff)
  finally have b: "ImportConfigFile table_json ''/tmp/new.json'' ?st1
     = (None,
        machine [rules_json \<mapsto> example_text, rules_json @ ''.bak'' \<mapsto> empty_text,
                 ''/tmp/new.json'' \<mapsto> example_text] example_doc)" .
  have "getDefaultConfigPath ?st2 = Inr rules_json
        \<and> \<not> fails ?st2 OpStat rules_json \<and> \<not> fails ?st2 OpRename rules_json
        \<and> \<not> fails ?st2 OpReadFile ''/tmp/new.json''
        \<and> \<not> fails ?st2 OpMkdirAll (filepath_Dir rules_json) \<and> \<not> fails ?st2 OpWriteFile rules_json
        \<and> \<not> fails ?st2 OpReadFile rules_json
        \<and> files ?st2 ''/tmp/new.json'' = Some garbage_text \<and> ''/tmp/new.json'' \<noteq> rules_json
        \<and> ''/tmp/new.json'' \<noteq> rules_json @ ''.bak''"
    by (simp add: machine_path machine_fields bak_neq)
  with import_backup [where st = ?st2 and dp = rules_json and data = garbage_text
      and src = "''/tmp/new.json''" and J = table_json]
  have "ImportConfigFile table_json ''/tmp/new.json'' ?st2 =
        (fst (Unmarshal table_json garbage_text (fm_Config ?st2)),
         ?st2\<lparr>files :=
              (case files ?st2 rules_json of
                 None \<Rightarrow> files ?st2
               | Some old \<Rightarrow> ((files ?st2)(rules_json := None))(rules_json @ ''.bak'' \<mapsto> old))
                (rules_json \<mapsto> garbage_text),
            fm_Config := snd (Unmarshal table_json garbage_text (fm_Config ?st2))\<rparr>)"
    by blast
  also have "\<dots> = (Some (JSONError ''invalid character''),
        machine [rules_json \<mapsto> garbage_text, rules_json @ ''.bak'' \<mapsto> empty_text,
                 ''/tmp/new.json'' \<mapsto> garbage_text] empty_doc)"
    by (auto simp: machine_def Unmarshal_garbage bak_neq bak_neq [symmetric] fun_eq_iff)
  finally have c: "ImportConfigFile table_json ''/tmp/new.json'' ?st2
     = (Some (JSONError ''invalid character''),
        machine [rules_json \<mapsto> garbage_text, rules_json @ ''.bak'' \<mapsto> empty_text,
                 ''/tmp/new.json'' \<mapsto> garbage_text] empty_doc)" .
  from a b c show ?thesis
    by blast
qed

text \<open>
  Claim C10 says that an import replaces the document in memory by the document of the
  source file, whatever was in memory before, also when the source leaves out one of the
  two arrays. \<^verbatim>\<open>LoadConfig\<close> decodes into the document that is in memory, and
  \<^verbatim>\<open>json.Unmarshal\<close> leaves a field alone when the text does not name it: importing
  \<open>filter_only_text\<close> over \<open>example_doc\<close> keeps the port forwarding rule of
  \<open>example_doc\<close>, and importing the same bytes over the empty document gives the
  empty document.
\<close>

theorem import_keeps_omitted_rules:
  "fst (ImportConfigFile table_json ''/tmp/filters.json''
          (machine [''/tmp/filters.json'' \<mapsto> filter_only_text] example_doc)) = None
   \<and> fm_Config (snd (ImportConfigFile table_json ''/tmp/filters.json''
          (machine [''/tmp/filters.json'' \<mapsto> filter_only_text] example_doc)))
     = \<lparr>FirewallRules = [], PortForwardingRules = [fwd_rule]\<rparr>
   \<and> fst (ImportConfigFile table_json ''/tmp/filters.json''
          (machine [''/tmp/filters.json'' \<mapsto> filter_only_text] empty_doc)) = None
   \<and> fm_Config (snd (ImportConfigFile table_json ''/tmp/filters.json''
          (machine [''/tmp/filters.json'' \<mapsto> filter_only_text] empty_doc)))
     = \<lparr>FirewallRules = [], PortForwardingRules = []\<rparr>"
proof -
  have "ImportConfigFile table_json ''/tmp/filters.json''
          (machine [''/tmp/filters.json'' \<mapsto> filter_only_text] cfg) =
        (None,
         (machine [''/tmp/filters.json'' \<mapsto> filter_only_text] cfg)
           \<lparr>files := [''/tmp/filters.json'' \<mapsto> filter_only_text, rules_json \<mapsto> filter_only_text],
            fm_Config := cfg\<lparr>FirewallRules := []\<rparr>\<rparr>)" for cfg
    using Import_normal
      [of "machine [''/tmp/filters.json'' \<mapsto> filter_only_text] cfg" rules_json
          "''/tmp/filters.json''" filter_only_text table_json]
    by (simp add: machine_path machine_fields bak_neq bak_neq [symmetric]
        table_Unmarshal_filter_only)
  then show ?thesis
    by (simp add: example_doc_def empty_doc_def)
qed

end
